theory Spec2Isabelle
  imports Complex_Main "HOL-Library.Sublist"
begin

section \<open>Data model\<close>

text \<open>
  The program is the incremental balance poller (the source file with the functions
  \<open>initializeOutputFiles\<close>, \<open>appendToCsv\<close>, \<open>updateErrorJson\<close>, \<open>fetchTokenList\<close>,
  \<open>checkNativeBalance\<close>, \<open>checkERC20Balance\<close>, \<open>processWallet\<close>, \<open>updateWalletListCsv\<close>
  and \<open>processWallets\<close>). The older \<open>index.js\<close> shares the derivation of the wallet set
  word for word.

  A row of the source list, as \<open>csv-parse\<close> with \<open>columns: true\<close> yields it: every cell is
  a string; a field reads \<open>undefined\<close> (\<open>None\<close>) when the file has no such column.
\<close>

record source_record =
  verified_credential_address :: "string option"
  verified_credential_format :: "string option"
  verified_credential_walletProvider :: "string option"
  other_columns :: "(string \<times> string) list"

text \<open>An entry of the \<open>CHAINS\<close> table.\<close>

record chain =
  c_id :: nat
  c_name :: string
  c_rpcUrl :: string
  c_symbol :: string
  c_decimals :: nat

text \<open>A token descriptor of the catalog; \<open>t_decimals = None\<close> when the field is absent.\<close>

record token =
  t_address :: string
  t_symbol :: string
  t_name :: string
  t_decimals :: "nat option"

text \<open>
  The object returned by the two balance probes. The JavaScript number \<open>balance\<close> is
  kept as the exact rational it denotes; \<open>b_error\<close> is the optional \<open>error\<close> field.
\<close>

record balance_record =
  b_chain :: string
  b_tokenType :: string
  b_symbol :: string
  b_balance :: rat
  b_tokenAddress :: string
  b_tokenName :: string
  b_error :: "string option"

text \<open>An entry of the module-level \<open>errors\<close> array.\<close>

record error_record =
  e_chain :: string
  e_token :: string
  e_tokenAddress :: string
  e_walletAddress :: string
  e_operation :: string
  e_error :: string

text \<open>A cell of a CSV row handed to \<open>stringify\<close>: a string or a number.\<close>

datatype cell = S string | N rat

type_synonym csv_row = "cell list"

datatype csv_path = allBalancesPath | nonZeroBalancesPath | errorCsvPath

text \<open>
  What the program does to the outside world, in order: the catalog request, the two
  kinds of balance probe and the rewrite of the source list.
\<close>

datatype event =
    TokenListRequest nat
  | NativeProbe string chain
  | ERC20Probe string chain token
  | Checkpoint string

text \<open>
  The state the program reads and writes: the source list \<open>wallet-list.csv\<close> (its parsed
  rows; \<open>None\<close> when the file does not exist), the three CSV outputs, the error JSON
  document, the in-memory \<open>errors\<close> array, and the log of events so far. A file is held
  as its rows, so \<open>parse\<close> and \<open>stringify\<close> are taken to be inverse to each other, and
  writes to the file system are taken to succeed. Console output, the pacing delays,
  the wallet counter that only feeds them and the client cache of \<open>getClient\<close> change
  none of this state and are left out.
\<close>

record world =
  wallet_list :: "source_record list option"
  csv_files :: "csv_path \<Rightarrow> csv_row list option"
  errorJson :: "error_record list option"
  errors :: "error_record list"
  log :: "event list"

text \<open>
  The network: each answer may depend on everything the program did before (the log).
  \<open>Inl message\<close> stands for a rejected request or any other exception raised inside
  the caller's \<open>try\<close> block. The answer of \<open>axios_get\<close> is \<open>response.data\<close>, a body
  that may be missing (\<open>None\<close>) and whose \<open>data\<close> field may be missing too.
\<close>

record env =
  axios_get :: "event list \<Rightarrow> nat \<Rightarrow> string + token list option option"
  getBalance :: "event list \<Rightarrow> chain \<Rightarrow> string \<Rightarrow> string + int"
  readContract :: "event list \<Rightarrow> chain \<Rightarrow> string \<Rightarrow> string \<Rightarrow> string + int"

text \<open>
  The result of a call: it returns a value, or it throws \<open>error.message\<close>; either way
  the state reached is kept.
\<close>

datatype 'a outcome = is_Throws: Throws string world | Returns 'a world

fun world_of :: "'a outcome \<Rightarrow> world" where
  "world_of (Throws m st) = st"
| "world_of (Returns v st) = st"

fun value_of :: "'a outcome \<Rightarrow> 'a option" where
  "value_of (Throws m st) = None"
| "value_of (Returns v st) = Some v"

section \<open>The chain registry\<close>

definition CHAINS :: "chain list" where
  "CHAINS =
     [\<lparr>c_id = 1, c_name = ''Ethereum'', c_rpcUrl = ''https://eth.llamarpc.com'',
       c_symbol = ''ETH'', c_decimals = 18\<rparr>]"

section \<open>The wallet set\<close>

text \<open>
  \<open>address && address.startsWith('0x') && format === 'blockchain' &&
  record.verified_credential_walletProvider === 'embeddedWallet'\<close>:
  an undefined or empty address is falsy.
\<close>

definition startsWith :: "string \<Rightarrow> string \<Rightarrow> bool" where
  "startsWith s p = (take (length p) s = p)"

text \<open>\<open>Set.prototype.add\<close>: a set that iterates in insertion order, as a list.\<close>

definition set_add :: "'a list \<Rightarrow> 'a \<Rightarrow> 'a list" where
  "set_add ws a = (if a \<in> set ws then ws else ws @ [a])"

text \<open>The \<open>records.forEach\<close> loop that fills \<open>wallets\<close>.\<close>

fun collectWallets :: "string list \<Rightarrow> source_record list \<Rightarrow> string list" where
  "collectWallets ws [] = ws"
| "collectWallets ws (r # rs) =
     collectWallets
       (case verified_credential_address r of
          None \<Rightarrow> ws
        | Some address \<Rightarrow>
            if address \<noteq> [] \<and> startsWith address ''0x''
               \<and> verified_credential_format r = Some ''blockchain''
               \<and> verified_credential_walletProvider r = Some ''embeddedWallet''
            then set_add ws address else ws)
       rs"

definition wallets :: "source_record list \<Rightarrow> string list" where
  "wallets records = collectWallets [] records"

section \<open>Output files\<close>

definition headers :: csv_row where
  "headers = map S [''address'', ''chain'', ''tokenType'', ''symbol'', ''balance'',
     ''tokenAddress'', ''tokenName'']"

definition errorHeaders :: csv_row where
  "errorHeaders = map S [''chain'', ''token'', ''tokenAddress'', ''walletAddress'',
     ''operation'', ''error'']"

text \<open>Each file is created, with its header row, only if it does not exist yet.\<close>

definition createIfMissing :: "csv_path \<Rightarrow> csv_row \<Rightarrow> world \<Rightarrow> world" where
  "createIfMissing filePath header st =
     (if csv_files st filePath = None
      then st\<lparr>csv_files := (csv_files st)(filePath \<mapsto> [header])\<rparr> else st)"

definition initializeOutputFiles :: "world \<Rightarrow> world" where
  "initializeOutputFiles st =
     (let st1 = createIfMissing allBalancesPath headers st;
          st2 = createIfMissing nonZeroBalancesPath headers st1;
          st3 = createIfMissing errorCsvPath errorHeaders st2
      in if errorJson st3 = None then st3\<lparr>errorJson := Some []\<rparr> else st3)"

definition rows_of :: "csv_row list option \<Rightarrow> csv_row list" where
  "rows_of f = (case f of None \<Rightarrow> [] | Some rows \<Rightarrow> rows)"

text \<open>\<open>fs.appendFileSync\<close> creates the file when it is missing.\<close>

definition appendToCsv :: "csv_path \<Rightarrow> csv_row list \<Rightarrow> world \<Rightarrow> world" where
  "appendToCsv filePath rows st =
     st\<lparr>csv_files := (csv_files st)(filePath \<mapsto> rows_of (csv_files st filePath) @ rows)\<rparr>"

definition updateErrorJson :: "world \<Rightarrow> world" where
  "updateErrorJson st = st\<lparr>errorJson := Some (errors st)\<rparr>"

section \<open>The token catalog\<close>

text \<open>\<open>String(chainId)\<close> for a chain identifier: its decimal digits.\<close>

fun String_js :: "nat \<Rightarrow> string" where
  "String_js n =
     (if n < 10 then [''0123456789'' ! n]
      else String_js (n div 10) @ [''0123456789'' ! (n mod 10)])"

declare String_js.simps [simp del]

definition fetchTokenList :: "env \<Rightarrow> nat \<Rightarrow> world \<Rightarrow> token list outcome" where
  "fetchTokenList env chainId st =
     (let st1 = st\<lparr>log := log st @ [TokenListRequest chainId]\<rparr>
      in case axios_get env (log st) chainId of
           Inr response_data \<Rightarrow>
             (case response_data of
                Some (Some data) \<Rightarrow> Returns data st1
              | _ \<Rightarrow> Returns [] st1)
         | Inl message \<Rightarrow>
             (let st2 = st1\<lparr>errors := errors st1 @
                          [\<lparr>e_chain = String_js chainId, e_token = ''N/A'',
                            e_tokenAddress = ''N/A'', e_walletAddress = ''N/A'',
                            e_operation = ''fetchTokenList'', e_error = message\<rparr>]\<rparr>;
                  st3 = updateErrorJson st2;
                  st4 = appendToCsv errorCsvPath
                          [[S (String_js chainId), S ''N/A'', S ''N/A'', S ''N/A'',
                            S ''fetchTokenList'', S message]] st3
              in Returns [] st4))"

section \<open>The balance probes\<close>

text \<open>
  Modelled from the spec: \<open>formatEther\<close> belongs to the library \<open>viem\<close>, which is not
  part of the sources. The spec has it convert the smallest-unit integer to a decimal
  by the given decimal precision, 18 when it is called with one argument. \<open>Number\<close> of
  the decimal string is taken as the exact value.
\<close>

definition formatEther :: "int \<Rightarrow> nat \<Rightarrow> rat" where
  "formatEther wei decimals = of_int wei / 10 ^ decimals"

definition checkNativeBalance ::
  "env \<Rightarrow> string \<Rightarrow> chain \<Rightarrow> world \<Rightarrow> balance_record outcome" where
  "checkNativeBalance env address chain st =
     (let st1 = st\<lparr>log := log st @ [NativeProbe address chain]\<rparr>
      in case getBalance env (log st) chain address of
           Inr balance \<Rightarrow>
             Returns
               \<lparr>b_chain = c_name chain, b_tokenType = ''native'', b_symbol = c_symbol chain,
                b_balance = formatEther balance 18, b_tokenAddress = ''native'',
                b_tokenName = c_symbol chain, b_error = None\<rparr> st1
         | Inl message \<Rightarrow>
             (let st2 = st1\<lparr>errors := errors st1 @
                          [\<lparr>e_chain = c_name chain, e_token = c_symbol chain,
                            e_tokenAddress = ''native'', e_walletAddress = address,
                            e_operation = ''checkNativeBalance'', e_error = message\<rparr>]\<rparr>;
                  st3 = updateErrorJson st2;
                  st4 = appendToCsv errorCsvPath
                          [[S (c_name chain), S (c_symbol chain), S ''native'', S address,
                            S ''checkNativeBalance'', S message]] st3
              in Returns
                   \<lparr>b_chain = c_name chain, b_tokenType = ''native'',
                    b_symbol = c_symbol chain, b_balance = 0, b_tokenAddress = ''native'',
                    b_tokenName = c_symbol chain, b_error = Some message\<rparr> st4))"

text \<open>\<open>token.decimals || 18\<close>: an absent field and the number 0 are both falsy.\<close>

definition decimals_or_18 :: "nat option \<Rightarrow> nat" where
  "decimals_or_18 d = (case d of None \<Rightarrow> 18 | Some n \<Rightarrow> if n = 0 then 18 else n)"

definition checkERC20Balance ::
  "env \<Rightarrow> string \<Rightarrow> chain \<Rightarrow> token \<Rightarrow> world \<Rightarrow> balance_record outcome" where
  "checkERC20Balance env address chain token st =
     (let st1 = st\<lparr>log := log st @ [ERC20Probe address chain token]\<rparr>
      in case readContract env (log st) chain (t_address token) address of
           Inr balance \<Rightarrow>
             (let decimals = decimals_or_18 (t_decimals token)
              in Returns
                   \<lparr>b_chain = c_name chain, b_tokenType = ''erc20'',
                    b_symbol = t_symbol token, b_balance = formatEther balance decimals,
                    b_tokenAddress = t_address token, b_tokenName = t_name token,
                    b_error = None\<rparr> st1)
         | Inl message \<Rightarrow>
             (let st2 = st1\<lparr>errors := errors st1 @
                          [\<lparr>e_chain = c_name chain, e_token = t_symbol token,
                            e_tokenAddress = t_address token, e_walletAddress = address,
                            e_operation = ''checkERC20Balance'', e_error = message\<rparr>]\<rparr>;
                  st3 = updateErrorJson st2;
                  st4 = appendToCsv errorCsvPath
                          [[S (c_name chain), S (t_symbol token), S (t_address token),
                            S address, S ''checkERC20Balance'', S message]] st3
              in Returns
                   \<lparr>b_chain = c_name chain, b_tokenType = ''erc20'',
                    b_symbol = t_symbol token, b_balance = 0,
                    b_tokenAddress = t_address token, b_tokenName = t_name token,
                    b_error = Some message\<rparr> st4))"

section \<open>Processing one wallet\<close>

text \<open>The row written for a balance record, with the wallet address in front.\<close>

definition balanceRow :: "string \<Rightarrow> balance_record \<Rightarrow> csv_row" where
  "balanceRow address b =
     [S address, S (b_chain b), S (b_tokenType b), S (b_symbol b), N (b_balance b),
      S (b_tokenAddress b), S (b_tokenName b)]"

type_synonym results = "(string \<times> balance_record) list"

text \<open>
  The body shared by both loops after a probe: push the record, append it to the
  non-zero file when \<open>balance > 0\<close>, append it to the all-balances file.
\<close>

definition record_balance ::
  "string \<Rightarrow> balance_record \<Rightarrow> results \<times> bool \<Rightarrow> world \<Rightarrow> (results \<times> bool) \<times> world" where
  "record_balance address b acc st =
     (let results = fst acc @ [(address, b)];
          st1 = (if b_balance b > 0
                 then appendToCsv nonZeroBalancesPath [balanceRow address b] st else st);
          hasNonZeroBalance = (if b_balance b > 0 then True else snd acc);
          st2 = appendToCsv allBalancesPath [balanceRow address b] st1
      in ((results, hasNonZeroBalance), st2))"

text \<open>\<open>for (const token of tokensToCheck)\<close>\<close>

fun tokenLoop ::
  "env \<Rightarrow> string \<Rightarrow> chain \<Rightarrow> token list \<Rightarrow> results \<times> bool \<Rightarrow> world
   \<Rightarrow> (results \<times> bool) outcome" where
  "tokenLoop env address chain [] acc st = Returns acc st"
| "tokenLoop env address chain (token # rest) acc st =
     (case checkERC20Balance env address chain token st of
        Throws m st' \<Rightarrow> Throws m st'
      | Returns tokenBalance st1 \<Rightarrow>
          (case record_balance address tokenBalance acc st1 of
             (acc1, st2) \<Rightarrow> tokenLoop env address chain rest acc1 st2))"

text \<open>\<open>tokenLists[chain.id] || []\<close>\<close>

definition tokens_for :: "(nat \<rightharpoonup> token list) \<Rightarrow> chain \<Rightarrow> token list" where
  "tokens_for tokenLists chain =
     (case tokenLists (c_id chain) of None \<Rightarrow> [] | Some tokens \<Rightarrow> tokens)"

text \<open>\<open>for (const chain of CHAINS)\<close> in \<open>processWallet\<close>\<close>

fun chainLoop ::
  "env \<Rightarrow> string \<Rightarrow> (nat \<rightharpoonup> token list) \<Rightarrow> chain list \<Rightarrow> results \<times> bool \<Rightarrow> world
   \<Rightarrow> (results \<times> bool) outcome" where
  "chainLoop env address tokenLists [] acc st = Returns acc st"
| "chainLoop env address tokenLists (chain # rest) acc st =
     (case checkNativeBalance env address chain st of
        Throws m st' \<Rightarrow> Throws m st'
      | Returns nativeBalance st1 \<Rightarrow>
          (case record_balance address nativeBalance acc st1 of
             (acc1, st2) \<Rightarrow>
               (let tokens = tokens_for tokenLists chain;
                    tokensToCheck = take 20 tokens
                in case tokenLoop env address chain tokensToCheck acc1 st2 of
                     Throws m st' \<Rightarrow> Throws m st'
                   | Returns acc2 st3 \<Rightarrow> chainLoop env address tokenLists rest acc2 st3)))"

text \<open>The registry is a parameter; the program runs with \<open>CHAINS\<close>.\<close>

definition processWallet ::
  "env \<Rightarrow> chain list \<Rightarrow> string \<Rightarrow> (nat \<rightharpoonup> token list) \<Rightarrow> world
   \<Rightarrow> (results \<times> bool) outcome" where
  "processWallet env registry address tokenLists st =
     chainLoop env address tokenLists registry ([], False) st"

section \<open>The checkpoint\<close>

text \<open>The predicate of the \<open>filter\<close> in \<open>updateWalletListCsv\<close>, before negation.\<close>

definition matches :: "string \<Rightarrow> source_record \<Rightarrow> bool" where
  "matches addressToRemove r =
     (verified_credential_address r = Some addressToRemove
      \<and> verified_credential_format r = Some ''blockchain''
      \<and> verified_credential_walletProvider r = Some ''embeddedWallet'')"

definition updateWalletListCsv ::
  "source_record list \<Rightarrow> string \<Rightarrow> world \<Rightarrow> source_record list \<times> world" where
  "updateWalletListCsv records addressToRemove st =
     (let updatedRecords = filter (\<lambda>r. \<not> matches addressToRemove r) records
      in (updatedRecords,
          st\<lparr>wallet_list := Some updatedRecords,
             log := log st @ [Checkpoint addressToRemove]\<rparr>))"

section \<open>The run\<close>

text \<open>The loop that caches one token list per chain.\<close>

fun fetchLoop ::
  "env \<Rightarrow> chain list \<Rightarrow> (nat \<rightharpoonup> token list) \<Rightarrow> world \<Rightarrow> (nat \<rightharpoonup> token list) outcome" where
  "fetchLoop env [] tokenLists st = Returns tokenLists st"
| "fetchLoop env (chain # rest) tokenLists st =
     (case fetchTokenList env (c_id chain) st of
        Throws m st' \<Rightarrow> Throws m st'
      | Returns tokens st1 \<Rightarrow> fetchLoop env rest (tokenLists(c_id chain \<mapsto> tokens)) st1)"

text \<open>\<open>for (const address of wallets)\<close>: probe the wallet, then remove it from the list.\<close>

fun walletLoop ::
  "env \<Rightarrow> chain list \<Rightarrow> (nat \<rightharpoonup> token list) \<Rightarrow> string list \<Rightarrow> source_record list \<Rightarrow> world
   \<Rightarrow> source_record list outcome" where
  "walletLoop env registry tokenLists [] records st = Returns records st"
| "walletLoop env registry tokenLists (address # rest) records st =
     (case processWallet env registry address tokenLists st of
        Throws m st' \<Rightarrow> Throws m st'
      | Returns r st1 \<Rightarrow>
          (case updateWalletListCsv records address st1 of
             (records1, st2) \<Rightarrow> walletLoop env registry tokenLists rest records1 st2))"

text \<open>The message of the error \<open>fs.readFileSync\<close> throws when the source list is missing.\<close>

definition ENOENT :: string where
  "ENOENT = ''ENOENT: no such file or directory''"

text \<open>The \<open>try\<close> block of \<open>processWallets\<close>.\<close>

definition processWallets_try :: "env \<Rightarrow> chain list \<Rightarrow> world \<Rightarrow> unit outcome" where
  "processWallets_try env registry st =
     (let st1 = initializeOutputFiles st
      in case wallet_list st1 of
           None \<Rightarrow> Throws ENOENT st1
         | Some records \<Rightarrow>
             (case fetchLoop env registry Map.empty st1 of
                Throws m st' \<Rightarrow> Throws m st'
              | Returns tokenLists st2 \<Rightarrow>
                  (case walletLoop env registry tokenLists (wallets records) records st2 of
                     Throws m st' \<Rightarrow> Throws m st'
                   | Returns r st3 \<Rightarrow> Returns () st3)))"

text \<open>\<open>processWallets\<close> with its \<open>catch\<close> block.\<close>

definition processWallets :: "env \<Rightarrow> chain list \<Rightarrow> world \<Rightarrow> world" where
  "processWallets env registry st =
     (case processWallets_try env registry st of
        Returns u st' \<Rightarrow> st'
      | Throws message st1 \<Rightarrow>
          (let st2 = st1\<lparr>errors := errors st1 @
                       [\<lparr>e_chain = ''N/A'', e_token = ''N/A'', e_tokenAddress = ''N/A'',
                         e_walletAddress = ''N/A'', e_operation = ''processWallets'',
                         e_error = message\<rparr>]\<rparr>;
               st3 = updateErrorJson st2
           in appendToCsv errorCsvPath
                [[S ''N/A'', S ''N/A'', S ''N/A'', S ''N/A'', S ''processWallets'', S message]]
                st3))"


section \<open>Notions of the specification\<close>

text \<open>
  An eligible row: the address is a non-empty string starting with \<open>0x\<close>, the format is
  \<open>blockchain\<close> and the wallet provider is \<open>embeddedWallet\<close>.
\<close>

definition eligible :: "source_record \<Rightarrow> bool" where
  "eligible r =
     ((case verified_credential_address r of
         None \<Rightarrow> False
       | Some address \<Rightarrow> address \<noteq> [] \<and> startsWith address ''0x'')
      \<and> verified_credential_format r = Some ''blockchain''
      \<and> verified_credential_walletProvider r = Some ''embeddedWallet'')"

definition address_of :: "source_record \<Rightarrow> string" where
  "address_of r =
     (case verified_credential_address r of None \<Rightarrow> [] | Some address \<Rightarrow> address)"

text \<open>Deduplication that keeps every element at its first occurrence.\<close>

function first_occurrences :: "'a list \<Rightarrow> 'a list" where
  "first_occurrences [] = []"
| "first_occurrences (x # xs) = x # first_occurrences (removeAll x xs)"
  by pat_completeness auto
termination
  by (relation "measure length") (auto simp: less_Suc_eq_le)

text \<open>The rows of the source list that survive the checkpoints of the wallets \<open>ws\<close>.\<close>

definition remaining :: "string list \<Rightarrow> source_record list \<Rightarrow> source_record list" where
  "remaining ws records = filter (\<lambda>r. \<not> list_ex (\<lambda>W. matches W r) ws) records"

text \<open>
  The probes of one wallet on one chain, in the order the specification gives them:
  the native balance, then the first 20 tokens of the chain's catalog.
\<close>

definition chain_probes :: "string \<Rightarrow> (nat \<rightharpoonup> token list) \<Rightarrow> chain \<Rightarrow> event list" where
  "chain_probes address tokenLists chain =
     NativeProbe address chain
     # map (ERC20Probe address chain) (take 20 (tokens_for tokenLists chain))"

definition wallet_probes ::
  "chain list \<Rightarrow> (nat \<rightharpoonup> token list) \<Rightarrow> string \<Rightarrow> event list" where
  "wallet_probes registry tokenLists address =
     concat (map (chain_probes address tokenLists) registry)"

text \<open>A result whose balance is strictly greater than zero, and the row it is written as.\<close>

definition positive :: "string \<times> balance_record \<Rightarrow> bool" where
  "positive r = (b_balance (snd r) > 0)"

definition row_of :: "string \<times> balance_record \<Rightarrow> csv_row" where
  "row_of r = balanceRow (fst r) (snd r)"

text \<open>The CSV row that mirrors an entry of the error list.\<close>

definition errorRow :: "error_record \<Rightarrow> csv_row" where
  "errorRow e =
     [S (e_chain e), S (e_token e), S (e_tokenAddress e), S (e_walletAddress e),
      S (e_operation e), S (e_error e)]"

text \<open>
  The error log is mirrored over the rows \<open>base\<close>: the error CSV holds \<open>base\<close> followed
  by one row per entry of \<open>errors\<close>, and once \<open>errors\<close> is not empty the error JSON
  document holds exactly \<open>errors\<close>.
\<close>

definition mirrored :: "csv_row list \<Rightarrow> world \<Rightarrow> bool" where
  "mirrored base st =
     (rows_of (csv_files st errorCsvPath) = base @ map errorRow (errors st)
      \<and> (errors st = [] \<or> errorJson st = Some (errors st)))"

text \<open>An error entry as \<open>fetchTokenList\<close> writes it.\<close>

definition fetch_error :: "error_record \<Rightarrow> bool" where
  "fetch_error e =
     (e_operation e = ''fetchTokenList'' \<and> e_walletAddress e = ''N/A''
      \<and> e_token e = ''N/A'' \<and> e_tokenAddress e = ''N/A'')"

text \<open>
  The catalog requests of a run that fail, in order, each with its chain id and the
  message of its error: the request for a chain is made after those of the chains
  before it. \<open>fetch_entry\<close> is the error entry of one of them.
\<close>

fun failed_requests :: "env \<Rightarrow> event list \<Rightarrow> chain list \<Rightarrow> (nat \<times> string) list" where
  "failed_requests env h [] = []"
| "failed_requests env h (c # cs) =
     (case axios_get env h (c_id c) of
        Inl message \<Rightarrow> [(c_id c, message)]
      | Inr response_data \<Rightarrow> [])
     @ failed_requests env (h @ [TokenListRequest (c_id c)]) cs"

definition fetch_entry :: "nat \<times> string \<Rightarrow> error_record" where
  "fetch_entry f =
     \<lparr>e_chain = String_js (fst f), e_token = ''N/A'', e_tokenAddress = ''N/A'',
      e_walletAddress = ''N/A'', e_operation = ''fetchTokenList'', e_error = snd f\<rparr>"

section \<open>Example inputs\<close>

text \<open>The one chain of the registry, a wallet row and a row that is not eligible.\<close>

definition Ethereum :: chain where
  "Ethereum = \<lparr>c_id = 1, c_name = ''Ethereum'', c_rpcUrl = ''https://eth.llamarpc.com'',
       c_symbol = ''ETH'', c_decimals = 18\<rparr>"

definition row_A :: source_record where
  "row_A = \<lparr>verified_credential_address = Some ''0xA'',
            verified_credential_format = Some ''blockchain'',
            verified_credential_walletProvider = Some ''embeddedWallet'',
            other_columns = []\<rparr>"

definition row_A_other :: source_record where
  "row_A_other = \<lparr>verified_credential_address = Some ''0xA'',
            verified_credential_format = Some ''blockchain'',
            verified_credential_walletProvider = Some ''metamask'',
            other_columns = []\<rparr>"

text \<open>A token with six decimals, a token with zero decimals, and a catalog of 50 tokens.\<close>

definition token_T :: token where
  "token_T = \<lparr>t_address = ''0xT'', t_symbol = ''TKN'', t_name = ''Token'',
              t_decimals = Some 6\<rparr>"

definition token_Z :: token where
  "token_Z = \<lparr>t_address = ''0xZ'', t_symbol = ''ZERO'', t_name = ''Zero'',
              t_decimals = Some 0\<rparr>"

definition catalog50 :: "nat \<rightharpoonup> token list" where
  "catalog50 = [1 \<mapsto> replicate 50 token_T]"

text \<open>
  Three networks: one where every request succeeds, one where every request fails, and
  one whose catalog answers without a \<open>data\<close> field.
\<close>

definition env_up :: env where
  "env_up = \<lparr>axios_get = (\<lambda>h i. Inr (Some (Some [token_T]))),
             getBalance = (\<lambda>h c a. Inr 0),
             readContract = (\<lambda>h c t a. Inr 5)\<rparr>"

definition env_down :: env where
  "env_down = \<lparr>axios_get = (\<lambda>h i. Inl ''timeout''),
             getBalance = (\<lambda>h c a. Inl ''timeout''),
             readContract = (\<lambda>h c t a. Inl ''timeout'')\<rparr>"

definition env_nodata :: env where
  "env_nodata = \<lparr>axios_get = (\<lambda>h i. Inr (Some None)),
             getBalance = (\<lambda>h c a. Inr 0),
             readContract = (\<lambda>h c t a. Inr 5)\<rparr>"

text \<open>A second chain, and a network whose catalog refuses that chain alone.\<close>

definition BNB :: chain where
  "BNB = \<lparr>c_id = 56, c_name = ''BNB Chain'',
           c_rpcUrl = ''https://bsc-dataseed.binance.org'', c_symbol = ''BNB'',
           c_decimals = 18\<rparr>"

definition env_flaky :: env where
  "env_flaky = \<lparr>axios_get = (\<lambda>h i. if i = 56 then Inl ''denied''
                                   else Inr (Some (Some []))),
             getBalance = (\<lambda>h c a. Inr 0),
             readContract = (\<lambda>h c t a. Inr 5)\<rparr>"

text \<open>
  Three states: nothing on disk but the source list; a state in the middle of a run
  that has logged one error; and a source list from which every eligible row is gone.
\<close>

definition st_fresh :: world where
  "st_fresh = \<lparr>wallet_list = Some [row_A, row_A_other], csv_files = (\<lambda>p. None),
               errorJson = None, errors = [], log = []\<rparr>"

definition old_error :: error_record where
  "old_error = \<lparr>e_chain = ''Ethereum'', e_token = ''ETH'', e_tokenAddress = ''native'',
                 e_walletAddress = ''0xB'', e_operation = ''checkNativeBalance'',
                 e_error = ''timeout''\<rparr>"

definition st_logged :: world where
  "st_logged = \<lparr>wallet_list = Some [row_A],
                csv_files = (\<lambda>p. if p = errorCsvPath
                                   then Some [errorHeaders, errorRow old_error]
                                   else Some [headers]),
                errorJson = Some [old_error], errors = [old_error], log = []\<rparr>"

definition st_emptied :: world where
  "st_emptied = \<lparr>wallet_list = Some [row_A_other],
                 csv_files = (\<lambda>p. if p = errorCsvPath then Some [errorHeaders]
                                    else Some [headers]),
                 errorJson = Some [], errors = [], log = []\<rparr>"

text \<open>
  A new process over the files a run has left: the module-level \<open>errors\<close> array is
  empty again.
\<close>

definition new_process :: "world \<Rightarrow> world" where
  "new_process st = st\<lparr>errors := []\<rparr>"

section \<open>Properties\<close>

subsection \<open>The wallet set\<close>

lemma set_first_occurrences: "set (first_occurrences xs) = set xs"
  by (induction xs rule: first_occurrences.induct) auto

lemma distinct_first_occurrences: "distinct (first_occurrences xs)"
  by (induction xs rule: first_occurrences.induct) (auto simp: set_first_occurrences)

lemma first_occurrences_snoc:
  "first_occurrences (xs @ [a]) = set_add (first_occurrences xs) a"
  by (induction xs rule: first_occurrences.induct)
     (auto simp: set_add_def set_first_occurrences)

lemma collectWallets_first_occurrences:
  "collectWallets (first_occurrences pre) rs =
     first_occurrences (pre @ map address_of (filter eligible rs))"
proof (induction rs arbitrary: pre)
  case Nil
  then show ?case by simp
next
  case (Cons r rs)
  show ?case
  proof (cases "eligible r")
    case True
    then obtain a where a: "verified_credential_address r = Some a"
      by (auto simp: eligible_def split: option.splits)
    with True have "collectWallets (first_occurrences pre) (r # rs)
        = collectWallets (first_occurrences (pre @ [a])) rs"
      by (simp add: eligible_def first_occurrences_snoc)
    also have "\<dots> = first_occurrences ((pre @ [a]) @ map address_of (filter eligible rs))"
      by (rule Cons.IH)
    finally show ?thesis using True a by (simp add: address_of_def [of r])
  next
    case False
    then have "collectWallets (first_occurrences pre) (r # rs)
        = collectWallets (first_occurrences pre) rs"
      by (auto simp: eligible_def split: option.splits)
    then show ?thesis using False Cons.IH by simp
  qed
qed

subsection \<open>Effects of the single operations\<close>

lemma rows_of_Some [simp]: "rows_of (Some rows) = rows"
  by (simp add: rows_of_def)

lemmas op_defs = Let_def appendToCsv_def updateErrorJson_def

lemma checkNativeBalance_returns:
  "\<exists>b st'. checkNativeBalance env a c st = Returns b st'"
  by (simp add: checkNativeBalance_def op_defs split: sum.splits)

lemma checkNativeBalance_frame:
  "log (world_of (checkNativeBalance env a c st)) = log st @ [NativeProbe a c]"
  "wallet_list (world_of (checkNativeBalance env a c st)) = wallet_list st"
  "csv_files (world_of (checkNativeBalance env a c st)) allBalancesPath
     = csv_files st allBalancesPath"
  "csv_files (world_of (checkNativeBalance env a c st)) nonZeroBalancesPath
     = csv_files st nonZeroBalancesPath"
  by (simp_all add: checkNativeBalance_def op_defs split: sum.splits)

lemma checkNativeBalance_mirrored:
  "mirrored base st \<Longrightarrow> mirrored base (world_of (checkNativeBalance env a c st))"
  by (simp add: mirrored_def checkNativeBalance_def op_defs errorRow_def split: sum.splits)

lemma checkERC20Balance_returns:
  "\<exists>b st'. checkERC20Balance env a c t st = Returns b st'"
  by (simp add: checkERC20Balance_def op_defs split: sum.splits)

lemma checkERC20Balance_frame:
  "log (world_of (checkERC20Balance env a c t st)) = log st @ [ERC20Probe a c t]"
  "wallet_list (world_of (checkERC20Balance env a c t st)) = wallet_list st"
  "csv_files (world_of (checkERC20Balance env a c t st)) allBalancesPath
     = csv_files st allBalancesPath"
  "csv_files (world_of (checkERC20Balance env a c t st)) nonZeroBalancesPath
     = csv_files st nonZeroBalancesPath"
  by (simp_all add: checkERC20Balance_def op_defs split: sum.splits)

lemma checkERC20Balance_mirrored:
  "mirrored base st \<Longrightarrow> mirrored base (world_of (checkERC20Balance env a c t st))"
  by (simp add: mirrored_def checkERC20Balance_def op_defs errorRow_def split: sum.splits)

lemma fetchTokenList_returns:
  "\<exists>ts st'. fetchTokenList env i st = Returns ts st'"
  by (simp add: fetchTokenList_def op_defs split: sum.splits option.splits)

lemma fetchTokenList_frame:
  "log (world_of (fetchTokenList env i st)) = log st @ [TokenListRequest i]"
  "wallet_list (world_of (fetchTokenList env i st)) = wallet_list st"
  "csv_files (world_of (fetchTokenList env i st)) allBalancesPath
     = csv_files st allBalancesPath"
  "csv_files (world_of (fetchTokenList env i st)) nonZeroBalancesPath
     = csv_files st nonZeroBalancesPath"
  by (simp_all add: fetchTokenList_def op_defs split: sum.splits option.splits)

lemma fetchTokenList_mirrored:
  "mirrored base st \<Longrightarrow> mirrored base (world_of (fetchTokenList env i st))"
  by (simp add: mirrored_def fetchTokenList_def op_defs errorRow_def
      split: sum.splits option.splits)

lemma record_balance_frame:
  "log (snd (record_balance a b acc st)) = log st"
  "wallet_list (snd (record_balance a b acc st)) = wallet_list st"
  "errors (snd (record_balance a b acc st)) = errors st"
  "errorJson (snd (record_balance a b acc st)) = errorJson st"
  "csv_files (snd (record_balance a b acc st)) errorCsvPath = csv_files st errorCsvPath"
  by (simp_all add: record_balance_def op_defs)

lemma record_balance_mirrored:
  "mirrored base st \<Longrightarrow> mirrored base (snd (record_balance a b acc st))"
  by (simp add: mirrored_def record_balance_frame)

lemma record_balance_results:
  "fst (fst (record_balance a b acc st)) = fst acc @ [(a, b)]"
  "snd (fst (record_balance a b acc st)) = (snd acc \<or> positive (a, b))"
  by (auto simp: record_balance_def op_defs positive_def)

lemma record_balance_files:
  "rows_of (csv_files (snd (record_balance a b acc st)) allBalancesPath)
     = rows_of (csv_files st allBalancesPath) @ [row_of (a, b)]"
  "rows_of (csv_files (snd (record_balance a b acc st)) nonZeroBalancesPath)
     = rows_of (csv_files st nonZeroBalancesPath) @ map row_of (filter positive [(a, b)])"
  by (simp_all add: record_balance_def op_defs positive_def row_of_def)

text \<open>
  Where \<open>checkERC20Balance\<close> agrees with scaling by the token's own precision: the
  \<open>decimals\<close> field is absent (18 is used) or is not zero.
\<close>

lemma checkERC20Balance_scaling:
  assumes "readContract env (log st) chain (t_address token) address = Inr raw"
    and "t_decimals token \<noteq> Some 0"
  shows "map_option b_balance (value_of (checkERC20Balance env address chain token st))
           = Some (formatEther raw (case t_decimals token of None \<Rightarrow> 18 | Some d \<Rightarrow> d))"
  using assms
  by (simp add: checkERC20Balance_def decimals_or_18_def split: option.splits)

subsection \<open>Effects of the loops\<close>

lemma tokenLoop_effect:
  "\<exists>new st'.
     tokenLoop env a c ts acc st = Returns (fst acc @ new, snd acc \<or> list_ex positive new) st'
     \<and> log st' = log st @ map (ERC20Probe a c) ts
     \<and> wallet_list st' = wallet_list st
     \<and> rows_of (csv_files st' allBalancesPath)
         = rows_of (csv_files st allBalancesPath) @ map row_of new
     \<and> rows_of (csv_files st' nonZeroBalancesPath)
         = rows_of (csv_files st nonZeroBalancesPath) @ map row_of (filter positive new)
     \<and> length new = length ts
     \<and> (mirrored base st \<longrightarrow> mirrored base st')"
proof (induction ts arbitrary: acc st)
  case Nil
  show ?case by (rule exI [of _ "[]"]) simp
next
  case (Cons t ts)
  obtain b st1 where probe: "checkERC20Balance env a c t st = Returns b st1"
    using checkERC20Balance_returns by blast
  then have st1: "world_of (checkERC20Balance env a c t st) = st1" by simp
  obtain acc1 st2 where rb: "record_balance a b acc st1 = (acc1, st2)"
    by (cases "record_balance a b acc st1")
  have acc1: "fst acc1 = fst acc @ [(a, b)]" "snd acc1 = (snd acc \<or> positive (a, b))"
    using rb record_balance_results [of a b acc st1] by simp_all
  have st2: "st2 = snd (record_balance a b acc st1)"
    using rb by simp
  from Cons.IH [of acc1 st2] obtain new st' where
    loop: "tokenLoop env a c ts acc1 st2
             = Returns (fst acc1 @ new, snd acc1 \<or> list_ex positive new) st'"
    and lg: "log st' = log st2 @ map (ERC20Probe a c) ts"
    and wl: "wallet_list st' = wallet_list st2"
    and al: "rows_of (csv_files st' allBalancesPath)
               = rows_of (csv_files st2 allBalancesPath) @ map row_of new"
    and nz: "rows_of (csv_files st' nonZeroBalancesPath)
               = rows_of (csv_files st2 nonZeroBalancesPath) @ map row_of (filter positive new)"
    and ln: "length new = length ts"
    and mi: "mirrored base st2 \<longrightarrow> mirrored base st'"
    by blast
  have "tokenLoop env a c (t # ts) acc st
          = Returns (fst acc @ (a, b) # new, snd acc \<or> list_ex positive ((a, b) # new)) st'"
    using probe rb loop by (simp add: acc1 record_balance_results)
  moreover have "log st' = log st @ map (ERC20Probe a c) (t # ts)"
    using lg by (simp add: st2 record_balance_frame st1 [symmetric] checkERC20Balance_frame)
  moreover have "wallet_list st' = wallet_list st"
    using wl by (simp add: st2 record_balance_frame st1 [symmetric] checkERC20Balance_frame)
  moreover have "rows_of (csv_files st' allBalancesPath)
      = rows_of (csv_files st allBalancesPath) @ map row_of ((a, b) # new)"
    using al by (simp add: st2 record_balance_files st1 [symmetric] checkERC20Balance_frame)
  moreover have "rows_of (csv_files st' nonZeroBalancesPath)
      = rows_of (csv_files st nonZeroBalancesPath) @ map row_of (filter positive ((a, b) # new))"
    using nz by (simp add: st2 record_balance_files st1 [symmetric] checkERC20Balance_frame)
  moreover have "length ((a, b) # new) = length (t # ts)"
    using ln by simp
  moreover have "mirrored base st \<longrightarrow> mirrored base st'"
    using mi st1 checkERC20Balance_mirrored [of base st env a c t]
      record_balance_mirrored [of base st1 a b acc] by (simp add: st2)
  ultimately show ?case by blast
qed

lemma chainLoop_effect:
  "\<exists>new st'.
     chainLoop env a tls cs acc st = Returns (fst acc @ new, snd acc \<or> list_ex positive new) st'
     \<and> log st' = log st @ concat (map (chain_probes a tls) cs)
     \<and> wallet_list st' = wallet_list st
     \<and> rows_of (csv_files st' allBalancesPath)
         = rows_of (csv_files st allBalancesPath) @ map row_of new
     \<and> rows_of (csv_files st' nonZeroBalancesPath)
         = rows_of (csv_files st nonZeroBalancesPath) @ map row_of (filter positive new)
     \<and> length new = length (concat (map (chain_probes a tls) cs))
     \<and> (mirrored base st \<longrightarrow> mirrored base st')"
proof (induction cs arbitrary: acc st)
  case Nil
  show ?case by (rule exI [of _ "[]"]) simp
next
  case (Cons c cs)
  let ?ts = "take 20 (tokens_for tls c)"
  obtain b st1 where probe: "checkNativeBalance env a c st = Returns b st1"
    using checkNativeBalance_returns by blast
  then have st1: "world_of (checkNativeBalance env a c st) = st1" by simp
  obtain acc1 st2 where rb: "record_balance a b acc st1 = (acc1, st2)"
    by (cases "record_balance a b acc st1")
  have acc1: "fst acc1 = fst acc @ [(a, b)]" "snd acc1 = (snd acc \<or> positive (a, b))"
    using rb record_balance_results [of a b acc st1] by simp_all
  have st2: "st2 = snd (record_balance a b acc st1)"
    using rb by simp
  from tokenLoop_effect [of env a c ?ts acc1 st2 base] obtain new1 st3 where
    tls: "tokenLoop env a c ?ts acc1 st2
           = Returns (fst acc1 @ new1, snd acc1 \<or> list_ex positive new1) st3"
    and lg1: "log st3 = log st2 @ map (ERC20Probe a c) ?ts"
    and wl1: "wallet_list st3 = wallet_list st2"
    and al1: "rows_of (csv_files st3 allBalancesPath)
               = rows_of (csv_files st2 allBalancesPath) @ map row_of new1"
    and nz1: "rows_of (csv_files st3 nonZeroBalancesPath)
               = rows_of (csv_files st2 nonZeroBalancesPath)
                 @ map row_of (filter positive new1)"
    and ln1: "length new1 = length ?ts"
    and mi1: "mirrored base st2 \<longrightarrow> mirrored base st3"
    by blast
  let ?acc2 = "(fst acc1 @ new1, snd acc1 \<or> list_ex positive new1)"
  from Cons.IH [of ?acc2 st3] obtain new2 st' where
    loop: "chainLoop env a tls cs ?acc2 st3
             = Returns (fst ?acc2 @ new2, snd ?acc2 \<or> list_ex positive new2) st'"
    and lg: "log st' = log st3 @ concat (map (chain_probes a tls) cs)"
    and wl: "wallet_list st' = wallet_list st3"
    and al: "rows_of (csv_files st' allBalancesPath)
               = rows_of (csv_files st3 allBalancesPath) @ map row_of new2"
    and nz: "rows_of (csv_files st' nonZeroBalancesPath)
               = rows_of (csv_files st3 nonZeroBalancesPath)
                 @ map row_of (filter positive new2)"
    and ln: "length new2 = length (concat (map (chain_probes a tls) cs))"
    and mi: "mirrored base st3 \<longrightarrow> mirrored base st'"
    by blast
  let ?new = "(a, b) # new1 @ new2"
  have "chainLoop env a tls (c # cs) acc st
          = Returns (fst acc @ ?new, snd acc \<or> list_ex positive ?new) st'"
    using probe rb tls loop acc1 by (simp add: disj_assoc)
  moreover have "log st' = log st @ concat (map (chain_probes a tls) (c # cs))"
    using lg lg1
    by (simp add: st2 record_balance_frame st1 [symmetric] checkNativeBalance_frame
        chain_probes_def)
  moreover have "wallet_list st' = wallet_list st"
    using wl wl1
    by (simp add: st2 record_balance_frame st1 [symmetric] checkNativeBalance_frame)
  moreover have "rows_of (csv_files st' allBalancesPath)
      = rows_of (csv_files st allBalancesPath) @ map row_of ?new"
    using al al1
    by (simp add: st2 record_balance_files st1 [symmetric] checkNativeBalance_frame)
  moreover have "rows_of (csv_files st' nonZeroBalancesPath)
      = rows_of (csv_files st nonZeroBalancesPath) @ map row_of (filter positive ?new)"
    using nz nz1
    by (simp add: st2 record_balance_files st1 [symmetric] checkNativeBalance_frame)
  moreover have "length ?new = length (concat (map (chain_probes a tls) (c # cs)))"
    using ln ln1 by (simp add: chain_probes_def)
  moreover have "mirrored base st \<longrightarrow> mirrored base st'"
    using mi mi1 st1 checkNativeBalance_mirrored [of base st env a c]
      record_balance_mirrored [of base st1 a b acc] by (simp add: st2)
  ultimately show ?case by blast
qed

lemma processWallet_effect:
  "\<exists>results st'.
     processWallet env registry a tls st = Returns (results, list_ex positive results) st'
     \<and> log st' = log st @ wallet_probes registry tls a
     \<and> wallet_list st' = wallet_list st
     \<and> rows_of (csv_files st' allBalancesPath)
         = rows_of (csv_files st allBalancesPath) @ map row_of results
     \<and> rows_of (csv_files st' nonZeroBalancesPath)
         = rows_of (csv_files st nonZeroBalancesPath) @ map row_of (filter positive results)
     \<and> length results = length (wallet_probes registry tls a)
     \<and> (mirrored base st \<longrightarrow> mirrored base st')"
  using chainLoop_effect [of env a tls registry "([], False)" st base]
  by (simp add: processWallet_def wallet_probes_def)

lemma fetchTokenList_errors:
  "\<exists>es. errors (world_of (fetchTokenList env i st)) = errors st @ es
        \<and> rows_of (csv_files (world_of (fetchTokenList env i st)) errorCsvPath)
            = rows_of (csv_files st errorCsvPath) @ map errorRow es
        \<and> list_all fetch_error es \<and> length es \<le> 1
        \<and> ((\<forall>h j. \<not> isl (axios_get env h j)) \<longrightarrow> es = [])"
proof (cases "axios_get env (log st) i")
  case (Inl m)
  then have "isl (axios_get env (log st) i)" by simp
  then have "\<exists>h j. isl (axios_get env h j)" by blast
  with Inl show ?thesis
    by (simp add: fetchTokenList_def op_defs fetch_error_def errorRow_def)
next
  case (Inr r)
  then show ?thesis
    by (simp add: fetchTokenList_def op_defs split: option.splits)
qed

lemma fetchLoop_effect:
  "\<exists>tls' st'.
     fetchLoop env cs tls st = Returns tls' st'
     \<and> log st' = log st @ map (\<lambda>c. TokenListRequest (c_id c)) cs
     \<and> wallet_list st' = wallet_list st
     \<and> csv_files st' allBalancesPath = csv_files st allBalancesPath
     \<and> csv_files st' nonZeroBalancesPath = csv_files st nonZeroBalancesPath
     \<and> (mirrored base st \<longrightarrow> mirrored base st')
     \<and> (\<exists>es. errors st' = errors st @ es
           \<and> rows_of (csv_files st' errorCsvPath)
               = rows_of (csv_files st errorCsvPath) @ map errorRow es
           \<and> list_all fetch_error es
           \<and> length es \<le> length cs
           \<and> ((\<forall>h j. \<not> isl (axios_get env h j)) \<longrightarrow> es = []))"
proof (induction cs arbitrary: tls st)
  case Nil
  show ?case by simp
next
  case (Cons c cs)
  obtain ts st1 where fetch: "fetchTokenList env (c_id c) st = Returns ts st1"
    using fetchTokenList_returns by blast
  then have st1: "world_of (fetchTokenList env (c_id c) st) = st1" by simp
  from fetchTokenList_errors [of env "c_id c" st] obtain es1 where
    es1: "errors st1 = errors st @ es1"
      "rows_of (csv_files st1 errorCsvPath)
         = rows_of (csv_files st errorCsvPath) @ map errorRow es1"
      "list_all fetch_error es1" "length es1 \<le> 1"
      "(\<forall>h j. \<not> isl (axios_get env h j)) \<longrightarrow> es1 = []"
    unfolding st1 by blast
  from Cons.IH [of "tls(c_id c \<mapsto> ts)" st1] obtain tls' st' es2 where
    loop: "fetchLoop env cs (tls(c_id c \<mapsto> ts)) st1 = Returns tls' st'"
    and lg: "log st' = log st1 @ map (\<lambda>c. TokenListRequest (c_id c)) cs"
    and wl: "wallet_list st' = wallet_list st1"
    and al: "csv_files st' allBalancesPath = csv_files st1 allBalancesPath"
    and nz: "csv_files st' nonZeroBalancesPath = csv_files st1 nonZeroBalancesPath"
    and mi: "mirrored base st1 \<longrightarrow> mirrored base st'"
    and es2: "errors st' = errors st1 @ es2"
      "rows_of (csv_files st' errorCsvPath)
         = rows_of (csv_files st1 errorCsvPath) @ map errorRow es2"
      "list_all fetch_error es2"
      "length es2 \<le> length cs" "(\<forall>h j. \<not> isl (axios_get env h j)) \<longrightarrow> es2 = []"
    by blast
  have "fetchLoop env (c # cs) tls st = Returns tls' st'"
    using fetch loop by simp
  moreover have "log st' = log st @ map (\<lambda>c. TokenListRequest (c_id c)) (c # cs)"
    using lg by (simp add: st1 [symmetric] fetchTokenList_frame)
  moreover have "wallet_list st' = wallet_list st"
    using wl by (simp add: st1 [symmetric] fetchTokenList_frame)
  moreover have "csv_files st' allBalancesPath = csv_files st allBalancesPath"
    using al by (simp add: st1 [symmetric] fetchTokenList_frame)
  moreover have "csv_files st' nonZeroBalancesPath = csv_files st nonZeroBalancesPath"
    using nz by (simp add: st1 [symmetric] fetchTokenList_frame)
  moreover have "mirrored base st \<longrightarrow> mirrored base st'"
    using mi st1 fetchTokenList_mirrored [of base st env "c_id c"] by simp
  moreover have "errors st' = errors st @ (es1 @ es2)
      \<and> rows_of (csv_files st' errorCsvPath)
          = rows_of (csv_files st errorCsvPath) @ map errorRow (es1 @ es2)
      \<and> list_all fetch_error (es1 @ es2)
      \<and> length (es1 @ es2) \<le> length (c # cs)
      \<and> ((\<forall>h j. \<not> isl (axios_get env h j)) \<longrightarrow> es1 @ es2 = [])"
    using es1 es2 by simp
  ultimately show ?case by blast
qed

lemma updateWalletListCsv_effect:
  "fst (updateWalletListCsv records W st) = filter (\<lambda>r. \<not> matches W r) records"
  "log (snd (updateWalletListCsv records W st)) = log st @ [Checkpoint W]"
  "wallet_list (snd (updateWalletListCsv records W st))
     = Some (filter (\<lambda>r. \<not> matches W r) records)"
  "csv_files (snd (updateWalletListCsv records W st)) = csv_files st"
  "errors (snd (updateWalletListCsv records W st)) = errors st"
  "errorJson (snd (updateWalletListCsv records W st)) = errorJson st"
  by (simp_all add: updateWalletListCsv_def Let_def)

lemma updateWalletListCsv_mirrored:
  "mirrored base st \<Longrightarrow> mirrored base (snd (updateWalletListCsv records W st))"
  by (simp add: mirrored_def updateWalletListCsv_effect)

lemma remaining_Cons:
  "remaining ws (filter (\<lambda>r. \<not> matches W r) records) = remaining (W # ws) records"
  by (auto simp: remaining_def intro: filter_cong)

lemma walletLoop_effect:
  "\<exists>st'.
     walletLoop env registry tls ws records st = Returns (remaining ws records) st'
     \<and> log st' = log st @ concat (map (\<lambda>W. wallet_probes registry tls W @ [Checkpoint W]) ws)
     \<and> wallet_list st' = (if ws = [] then wallet_list st else Some (remaining ws records))
     \<and> (mirrored base st \<longrightarrow> mirrored base st')"
proof (induction ws arbitrary: records st)
  case Nil
  show ?case by (simp add: remaining_def)
next
  case (Cons W ws)
  from processWallet_effect [of env registry W tls st base] obtain results st1 where
    pw: "processWallet env registry W tls st = Returns (results, list_ex positive results) st1"
    and lg1: "log st1 = log st @ wallet_probes registry tls W"
    and mi1: "mirrored base st \<longrightarrow> mirrored base st1"
    by blast
  obtain records1 st2 where up: "updateWalletListCsv records W st1 = (records1, st2)"
    by (cases "updateWalletListCsv records W st1")
  have records1: "records1 = filter (\<lambda>r. \<not> matches W r) records"
    and st2: "st2 = snd (updateWalletListCsv records W st1)"
    using up updateWalletListCsv_effect(1) [of records W st1] by simp_all
  from Cons.IH [of records1 st2] obtain st' where
    loop: "walletLoop env registry tls ws records1 st2 = Returns (remaining ws records1) st'"
    and lg: "log st' = log st2
               @ concat (map (\<lambda>W. wallet_probes registry tls W @ [Checkpoint W]) ws)"
    and wl: "wallet_list st' = (if ws = [] then wallet_list st2 else Some (remaining ws records1))"
    and mi: "mirrored base st2 \<longrightarrow> mirrored base st'"
    by blast
  have rem: "remaining ws records1 = remaining (W # ws) records"
    by (simp add: records1 remaining_Cons)
  have "walletLoop env registry tls (W # ws) records st
          = Returns (remaining (W # ws) records) st'"
    using pw up loop rem by simp
  moreover have "log st' = log st
      @ concat (map (\<lambda>W. wallet_probes registry tls W @ [Checkpoint W]) (W # ws))"
    using lg lg1 by (simp add: st2 updateWalletListCsv_effect)
  moreover have "wallet_list st' = Some (remaining (W # ws) records)"
  proof (cases "ws = []")
    case True
    then show ?thesis
      using wl by (simp add: st2 updateWalletListCsv_effect remaining_def)
  next
    case False
    then show ?thesis using wl rem by simp
  qed
  moreover have "mirrored base st \<longrightarrow> mirrored base st'"
    using mi mi1 updateWalletListCsv_mirrored [of base st1 records W] by (simp add: st2)
  ultimately show ?case by simp
qed

subsection \<open>The whole run\<close>

lemma distinct_wallets: "distinct (wallets records)"
  using collectWallets_first_occurrences [of "[]" records]
  by (simp add: wallets_def distinct_first_occurrences)

lemma createIfMissing_effect:
  "log (createIfMissing p h st) = log st"
  "wallet_list (createIfMissing p h st) = wallet_list st"
  "errors (createIfMissing p h st) = errors st"
  "errorJson (createIfMissing p h st) = errorJson st"
  "csv_files (createIfMissing p h st) q
     = (if q = p \<and> csv_files st p = None then Some [h] else csv_files st q)"
  by (simp_all add: createIfMissing_def)

lemma count_list_distinct: "distinct xs \<Longrightarrow> x \<in> set xs \<Longrightarrow> count_list xs x = 1"
  by (induction xs) auto

lemma initializeOutputFiles_effect:
  "log (initializeOutputFiles st) = log st"
  "wallet_list (initializeOutputFiles st) = wallet_list st"
  "errors (initializeOutputFiles st) = errors st"
  "rows_of (csv_files (initializeOutputFiles st) allBalancesPath)
     = (if csv_files st allBalancesPath = None then [headers]
        else rows_of (csv_files st allBalancesPath))"
  "rows_of (csv_files (initializeOutputFiles st) nonZeroBalancesPath)
     = (if csv_files st nonZeroBalancesPath = None then [headers]
        else rows_of (csv_files st nonZeroBalancesPath))"
  "rows_of (csv_files (initializeOutputFiles st) errorCsvPath)
     = (if csv_files st errorCsvPath = None then [errorHeaders]
        else rows_of (csv_files st errorCsvPath))"
  by (simp_all add: initializeOutputFiles_def Let_def createIfMissing_effect)

lemma processWallets_Some:
  assumes "wallet_list st = Some records"
  shows "\<exists>tls st2 st'.
           fetchLoop env registry Map.empty (initializeOutputFiles st) = Returns tls st2
           \<and> walletLoop env registry tls (wallets records) records st2
               = Returns (remaining (wallets records) records) st'
           \<and> processWallets env registry st = st'"
proof -
  obtain tls st2 where
    f: "fetchLoop env registry Map.empty (initializeOutputFiles st) = Returns tls st2"
    using fetchLoop_effect [of env registry Map.empty "initializeOutputFiles st" "[]"]
    by blast
  obtain st' where
    w: "walletLoop env registry tls (wallets records) records st2
          = Returns (remaining (wallets records) records) st'"
    using walletLoop_effect [of env registry tls "wallets records" records st2 "[]"]
    by blast
  have "processWallets env registry st = st'"
    using assms f w
    by (simp add: processWallets_def processWallets_try_def Let_def
        initializeOutputFiles_effect)
  with f w show ?thesis by blast
qed

lemma Checkpoint_notin_wallet_probes:
  "Checkpoint V \<notin> set (wallet_probes registry tls W)"
  by (auto simp: wallet_probes_def chain_probes_def)

lemma count_checkpoints:
  "count_list (concat (map (\<lambda>W. wallet_probes registry tls W @ [Checkpoint W]) ws))
     (Checkpoint V) = count_list ws V"
  by (induction ws) (simp_all add: Checkpoint_notin_wallet_probes)

lemma count_requests:
  "count_list (map (\<lambda>c. TokenListRequest (c_id c)) registry) (Checkpoint V) = 0"
  by (induction registry) simp_all

lemma no_match_remaining:
  "W \<in> set ws \<Longrightarrow> filter (matches W) (remaining ws records) = []"
  by (induction records) (auto simp: remaining_def list_ex_iff)

lemma processWallets_mirrored:
  assumes "mirrored base (initializeOutputFiles st)"
  shows "mirrored base (processWallets env registry st)"
proof (cases "wallet_list st")
  case None
  then have "wallet_list (initializeOutputFiles st) = None"
    by (simp add: initializeOutputFiles_effect)
  then show ?thesis
    using assms
    by (simp add: processWallets_def processWallets_try_def Let_def mirrored_def
        appendToCsv_def updateErrorJson_def errorRow_def)
next
  case (Some records)
  from processWallets_Some [OF Some, of env registry] obtain tls st2 st' where
    f: "fetchLoop env registry Map.empty (initializeOutputFiles st) = Returns tls st2"
    and w: "walletLoop env registry tls (wallets records) records st2
              = Returns (remaining (wallets records) records) st'"
    and p: "processWallets env registry st = st'"
    by blast
  have "mirrored base st2"
    using fetchLoop_effect [of env registry Map.empty "initializeOutputFiles st" base] f assms
    by auto
  then have "mirrored base st'"
    using walletLoop_effect [of env registry tls "wallets records" records st2 base] w
    by auto
  with p show ?thesis by simp
qed

subsection \<open>The catalog failures a run logs\<close>

lemma fetchTokenList_logged:
  "errors (world_of (fetchTokenList env i st))
     = errors st @ map fetch_entry
         (case axios_get env (log st) i of Inl message \<Rightarrow> [(i, message)] | Inr r \<Rightarrow> [])"
  "rows_of (csv_files (world_of (fetchTokenList env i st)) errorCsvPath)
     = rows_of (csv_files st errorCsvPath) @ map errorRow (map fetch_entry
         (case axios_get env (log st) i of Inl message \<Rightarrow> [(i, message)] | Inr r \<Rightarrow> []))"
  by (simp_all add: fetchTokenList_def op_defs fetch_entry_def errorRow_def
      split: sum.splits option.splits)

lemma fetchLoop_logged:
  "errors (world_of (fetchLoop env cs tls st))
     = errors st @ map fetch_entry (failed_requests env (log st) cs)
   \<and> rows_of (csv_files (world_of (fetchLoop env cs tls st)) errorCsvPath)
       = rows_of (csv_files st errorCsvPath)
         @ map errorRow (map fetch_entry (failed_requests env (log st) cs))"
proof (induction cs arbitrary: tls st)
  case Nil
  show ?case by simp
next
  case (Cons c cs)
  obtain ts st1 where fetch: "fetchTokenList env (c_id c) st = Returns ts st1"
    using fetchTokenList_returns by blast
  then have st1: "world_of (fetchTokenList env (c_id c) st) = st1" by simp
  have lg: "log st1 = log st @ [TokenListRequest (c_id c)]"
    using fetchTokenList_frame(1) [of env "c_id c" st] st1 by simp
  define tls1 where "tls1 = tls(c_id c \<mapsto> ts)"
  have step: "world_of (fetchLoop env (c # cs) tls st) = world_of (fetchLoop env cs tls1 st1)"
    using fetch by (simp add: tls1_def)
  show ?case
    unfolding step
    using Cons.IH [of tls1 st1] fetchTokenList_logged [of env "c_id c" st]
    by (simp add: st1 lg)
qed

lemma failed_requests_length: "length (failed_requests env h cs) \<le> length cs"
  by (induction cs arbitrary: h) (auto split: sum.splits intro: le_SucI)

lemma failed_requests_none:
  "(\<forall>h j. \<not> isl (axios_get env h j)) \<Longrightarrow> failed_requests env h cs = []"
proof (induction cs arbitrary: h)
  case Nil
  show ?case by simp
next
  case (Cons c cs)
  from Cons.prems have "\<not> isl (axios_get env h (c_id c))" by blast
  then obtain r where "axios_get env h (c_id c) = Inr r"
    by (cases "axios_get env h (c_id c)") auto
  with Cons show ?case by simp
qed

lemma failed_requests_all:
  "(\<forall>h j. isl (axios_get env h j)) \<Longrightarrow>
     map fst (failed_requests env h cs) = map c_id cs"
proof (induction cs arbitrary: h)
  case Nil
  show ?case by simp
next
  case (Cons c cs)
  from Cons.prems have "isl (axios_get env h (c_id c))" by blast
  then obtain m where "axios_get env h (c_id c) = Inl m"
    by (cases "axios_get env h (c_id c)") auto
  with Cons show ?case by simp
qed

lemma fetch_error_entries: "list_all fetch_error (map fetch_entry fs)"
  by (induction fs) (simp_all add: fetch_error_def fetch_entry_def)

subsection \<open>Two runs in a row\<close>

lemmas run_defs = wallets_def startsWith_def set_add_def processWallets_def
  processWallets_try_def initializeOutputFiles_def createIfMissing_def CHAINS_def
  fetchTokenList_def op_defs processWallet_def checkNativeBalance_def
  checkERC20Balance_def record_balance_def tokens_for_def updateWalletListCsv_def
  matches_def String_js.simps

lemma first_run_down:
  "wallet_list (processWallets env_down CHAINS st_fresh) = Some [row_A_other]"
  "csv_files (processWallets env_down CHAINS st_fresh) errorCsvPath
     = Some [errorHeaders,
          [S ''1'', S ''N/A'', S ''N/A'', S ''N/A'', S ''fetchTokenList'', S ''timeout''],
          [S ''Ethereum'', S ''ETH'', S ''native'', S ''0xA'', S ''checkNativeBalance'', S ''timeout'']]"
  "map_option length (errorJson (processWallets env_down CHAINS st_fresh)) = Some 2"
  by (simp_all add: st_fresh_def row_A_def row_A_other_def env_down_def run_defs)

lemma first_run_up:
  "wallet_list (processWallets env_up CHAINS st_fresh) = Some [row_A_other]"
  "csv_files (processWallets env_up CHAINS st_fresh) errorCsvPath = Some [errorHeaders]"
  by (simp_all add: st_fresh_def row_A_def row_A_other_def env_up_def token_T_def run_defs)

lemma second_run_down:
  assumes "wallet_list st = Some [row_A_other]" and "errors st = []"
    and "csv_files st errorCsvPath = Some rows"
  shows "errorJson (processWallets env_down CHAINS st)
           = Some [\<lparr>e_chain = ''1'', e_token = ''N/A'', e_tokenAddress = ''N/A'',
                     e_walletAddress = ''N/A'', e_operation = ''fetchTokenList'',
                     e_error = ''timeout''\<rparr>]"
    and "csv_files (processWallets env_down CHAINS st) errorCsvPath
           = Some (rows @ [[S ''1'', S ''N/A'', S ''N/A'', S ''N/A'', S ''fetchTokenList'',
                            S ''timeout'']])"
  using assms
  by (simp_all add: row_A_other_def env_down_def run_defs)

section \<open>The claims\<close>

text \<open>
  Claim C1. For every wallet \<open>W\<close> of the derived set, once \<open>processWallets\<close> has
  finished the probes of \<open>W\<close> on every chain it calls \<open>updateWalletListCsv\<close>; the
  rewritten source list has no row with address \<open>W\<close>, format \<open>blockchain\<close> and wallet
  provider \<open>embeddedWallet\<close>; the removal happens exactly once per wallet, after the
  wallet's loop over the chains. The log of a run over an existing source list is the
  catalog requests followed, wallet by wallet, by the wallet's probes and then its
  checkpoint; each wallet's checkpoint occurs once more than before the run; the file
  holds the rows no checkpoint removed, none of which matches a wallet of the set; and
  any single call leaves a file without a row that matches its wallet.
\<close>

theorem checkpoint_after_each_wallet:
  assumes "wallet_list st = Some records"
  shows "(\<exists>tokenLists.
            log (processWallets env registry st)
              = log st @ map (\<lambda>c. TokenListRequest (c_id c)) registry
                @ concat (map (\<lambda>W. wallet_probes registry tokenLists W @ [Checkpoint W])
                            (wallets records)))
         \<and> (\<forall>W \<in> set (wallets records).
               count_list (log (processWallets env registry st)) (Checkpoint W)
                 = count_list (log st) (Checkpoint W) + 1
               \<and> wallet_list (processWallets env registry st)
                   = Some (remaining (wallets records) records)
               \<and> filter (matches W) (remaining (wallets records) records) = [])
         \<and> wallet_list (snd (updateWalletListCsv rs V st0))
             = Some (fst (updateWalletListCsv rs V st0))
         \<and> filter (matches V) (fst (updateWalletListCsv rs V st0)) = []"
proof -
  let ?ws = "wallets records"
  from processWallets_Some [OF assms, of env registry] obtain tls st2 st' where
    f: "fetchLoop env registry Map.empty (initializeOutputFiles st) = Returns tls st2"
    and w: "walletLoop env registry tls ?ws records st2 = Returns (remaining ?ws records) st'"
    and p: "processWallets env registry st = st'"
    by blast
  have lg2: "log st2 = log st @ map (\<lambda>c. TokenListRequest (c_id c)) registry"
    using fetchLoop_effect [of env registry Map.empty "initializeOutputFiles st" "[]"] f
    by (auto simp: initializeOutputFiles_effect)
  have lg: "log st' = log st2
              @ concat (map (\<lambda>W. wallet_probes registry tls W @ [Checkpoint W]) ?ws)"
    and wl: "wallet_list st' = (if ?ws = [] then wallet_list st2
                                else Some (remaining ?ws records))"
    using walletLoop_effect [of env registry tls ?ws records st2 "[]"] w by auto
  have full: "log (processWallets env registry st)
      = log st @ map (\<lambda>c. TokenListRequest (c_id c)) registry
        @ concat (map (\<lambda>W. wallet_probes registry tls W @ [Checkpoint W]) ?ws)"
    using lg lg2 p by simp
  have d: "distinct ?ws"
    by (simp add: distinct_wallets)
  have per: "\<forall>W \<in> set ?ws.
      count_list (log (processWallets env registry st)) (Checkpoint W)
        = count_list (log st) (Checkpoint W) + 1
      \<and> wallet_list (processWallets env registry st) = Some (remaining ?ws records)
      \<and> filter (matches W) (remaining ?ws records) = []"
  proof
    fix W assume W: "W \<in> set ?ws"
    then have "count_list ?ws W = 1"
      using d by (simp add: count_list_distinct)
    then have "count_list (log (processWallets env registry st)) (Checkpoint W)
        = count_list (log st) (Checkpoint W) + 1"
      by (simp add: full count_checkpoints count_requests)
    moreover have "wallet_list (processWallets env registry st) = Some (remaining ?ws records)"
      using W wl p by auto
    moreover have "filter (matches W) (remaining ?ws records) = []"
      using W by (rule no_match_remaining)
    ultimately show "count_list (log (processWallets env registry st)) (Checkpoint W)
        = count_list (log st) (Checkpoint W) + 1
      \<and> wallet_list (processWallets env registry st) = Some (remaining ?ws records)
      \<and> filter (matches W) (remaining ?ws records) = []"
      by blast
  qed
  have step: "wallet_list (snd (updateWalletListCsv rs V st0))
             = Some (fst (updateWalletListCsv rs V st0))
         \<and> filter (matches V) (fst (updateWalletListCsv rs V st0)) = []"
    by (simp add: updateWalletListCsv_effect)
  from full per step show ?thesis by blast
qed


text \<open>
  Claim C1, at a source list of one wallet row and one row of another provider: the
  wallet is checkpointed once and only the other row is left.
\<close>

theorem checkpoint_after_each_wallet_witness:
  "wallet_list st_fresh = Some [row_A, row_A_other]
   \<and> wallets [row_A, row_A_other] = [''0xA'']
   \<and> count_list (log (processWallets env_up CHAINS st_fresh)) (Checkpoint ''0xA'') = 1
   \<and> wallet_list (processWallets env_up CHAINS st_fresh) = Some [row_A_other]"
  using checkpoint_after_each_wallet
    [of st_fresh "[row_A, row_A_other]" env_up CHAINS "[]" "''0xA''" st_fresh]
  by (simp add: st_fresh_def wallets_def row_A_def row_A_other_def startsWith_def
      set_add_def remaining_def matches_def)

text \<open>
  Claim C2. For every address, chain and token, \<open>checkNativeBalance\<close> and
  \<open>checkERC20Balance\<close> never throw: when the probe fails each appends exactly one
  error entry tagged with its own operation name and returns a balance record with
  balance 0 and the error message attached.
\<close>

theorem probe_failures_absorbed:
  "\<not> is_Throws (checkNativeBalance env address chain st)
   \<and> \<not> is_Throws (checkERC20Balance env address chain token st)
   \<and> (getBalance env (log st) chain address = Inl message \<longrightarrow>
        value_of (checkNativeBalance env address chain st)
          = Some \<lparr>b_chain = c_name chain, b_tokenType = ''native'', b_symbol = c_symbol chain,
                  b_balance = 0, b_tokenAddress = ''native'', b_tokenName = c_symbol chain,
                  b_error = Some message\<rparr>
        \<and> errors (world_of (checkNativeBalance env address chain st))
          = errors st @ [\<lparr>e_chain = c_name chain, e_token = c_symbol chain,
                           e_tokenAddress = ''native'', e_walletAddress = address,
                           e_operation = ''checkNativeBalance'', e_error = message\<rparr>])
   \<and> (readContract env (log st) chain (t_address token) address = Inl message \<longrightarrow>
        value_of (checkERC20Balance env address chain token st)
          = Some \<lparr>b_chain = c_name chain, b_tokenType = ''erc20'', b_symbol = t_symbol token,
                  b_balance = 0, b_tokenAddress = t_address token, b_tokenName = t_name token,
                  b_error = Some message\<rparr>
        \<and> errors (world_of (checkERC20Balance env address chain token st))
          = errors st @ [\<lparr>e_chain = c_name chain, e_token = t_symbol token,
                           e_tokenAddress = t_address token, e_walletAddress = address,
                           e_operation = ''checkERC20Balance'', e_error = message\<rparr>])"
proof -
  have "\<not> is_Throws (checkNativeBalance env address chain st)"
    using checkNativeBalance_returns [of env address chain st] by auto
  moreover have "\<not> is_Throws (checkERC20Balance env address chain token st)"
    using checkERC20Balance_returns [of env address chain token st] by auto
  moreover have "getBalance env (log st) chain address = Inl message \<longrightarrow>
        value_of (checkNativeBalance env address chain st)
          = Some \<lparr>b_chain = c_name chain, b_tokenType = ''native'', b_symbol = c_symbol chain,
                  b_balance = 0, b_tokenAddress = ''native'', b_tokenName = c_symbol chain,
                  b_error = Some message\<rparr>
        \<and> errors (world_of (checkNativeBalance env address chain st))
          = errors st @ [\<lparr>e_chain = c_name chain, e_token = c_symbol chain,
                           e_tokenAddress = ''native'', e_walletAddress = address,
                           e_operation = ''checkNativeBalance'', e_error = message\<rparr>]"
    by (simp add: checkNativeBalance_def op_defs)
  moreover have "readContract env (log st) chain (t_address token) address = Inl message \<longrightarrow>
        value_of (checkERC20Balance env address chain token st)
          = Some \<lparr>b_chain = c_name chain, b_tokenType = ''erc20'', b_symbol = t_symbol token,
                  b_balance = 0, b_tokenAddress = t_address token, b_tokenName = t_name token,
                  b_error = Some message\<rparr>
        \<and> errors (world_of (checkERC20Balance env address chain token st))
          = errors st @ [\<lparr>e_chain = c_name chain, e_token = t_symbol token,
                           e_tokenAddress = t_address token, e_walletAddress = address,
                           e_operation = ''checkERC20Balance'', e_error = message\<rparr>]"
    by (simp add: checkERC20Balance_def op_defs)
  ultimately show ?thesis by blast
qed

text \<open>Claim C2, on the network where every request times out.\<close>

theorem probe_failures_absorbed_witness:
  "getBalance env_down (log st_fresh) Ethereum ''0xA'' = Inl ''timeout''
   \<and> readContract env_down (log st_fresh) Ethereum (t_address token_T) ''0xA'' = Inl ''timeout''
   \<and> \<not> is_Throws (checkNativeBalance env_down ''0xA'' Ethereum st_fresh)
   \<and> \<not> is_Throws (checkERC20Balance env_down ''0xA'' Ethereum token_T st_fresh)
   \<and> value_of (checkNativeBalance env_down ''0xA'' Ethereum st_fresh)
       = Some \<lparr>b_chain = ''Ethereum'', b_tokenType = ''native'', b_symbol = ''ETH'',
               b_balance = 0, b_tokenAddress = ''native'', b_tokenName = ''ETH'',
               b_error = Some ''timeout''\<rparr>
   \<and> errors (world_of (checkNativeBalance env_down ''0xA'' Ethereum st_fresh))
       = [\<lparr>e_chain = ''Ethereum'', e_token = ''ETH'', e_tokenAddress = ''native'',
           e_walletAddress = ''0xA'', e_operation = ''checkNativeBalance'',
           e_error = ''timeout''\<rparr>]
   \<and> value_of (checkERC20Balance env_down ''0xA'' Ethereum token_T st_fresh)
       = Some \<lparr>b_chain = ''Ethereum'', b_tokenType = ''erc20'', b_symbol = ''TKN'',
               b_balance = 0, b_tokenAddress = ''0xT'', b_tokenName = ''Token'',
               b_error = Some ''timeout''\<rparr>
   \<and> errors (world_of (checkERC20Balance env_down ''0xA'' Ethereum token_T st_fresh))
       = [\<lparr>e_chain = ''Ethereum'', e_token = ''TKN'', e_tokenAddress = ''0xT'',
           e_walletAddress = ''0xA'', e_operation = ''checkERC20Balance'',
           e_error = ''timeout''\<rparr>]"
  using probe_failures_absorbed [of env_down "''0xA''" Ethereum st_fresh token_T "''timeout''"]
  by (simp add: env_down_def st_fresh_def Ethereum_def token_T_def)

text \<open>
  Claim C3. For every list of source records, the wallet set derived by \<open>processWallets\<close>
  holds exactly the addresses of the eligible rows (non-empty address starting with
  \<open>0x\<close>, format \<open>blockchain\<close>, wallet provider \<open>embeddedWallet\<close>), without duplicates,
  each at the place of its first occurrence.
\<close>

theorem wallets_derivation:
  "wallets records = first_occurrences (map address_of (filter eligible records))
   \<and> distinct (wallets records)
   \<and> set (wallets records) = set (map address_of (filter eligible records))"
proof -
  have "wallets records = first_occurrences (map address_of (filter eligible records))"
    using collectWallets_first_occurrences [of "[]" records]
    by (simp add: wallets_def)
  then show ?thesis
    by (simp add: distinct_first_occurrences set_first_occurrences)
qed

text \<open>
  Claim C4, at a token whose \<open>decimals\<close> field is the number 0 and a raw balance of 5:
  \<open>token.decimals || 18\<close> takes 0 for absent, so the balance returned is \<open>5 / 10^18\<close>,
  where scaling by the token's own precision gives 5.
\<close>

theorem checkERC20Balance_zero_decimals:
  "map_option b_balance (value_of (checkERC20Balance env_up ''0xA'' Ethereum token_Z st_fresh))
     = Some (5 / 10 ^ 18)
   \<and> formatEther 5 0 = 5
   \<and> (5::rat) / 10 ^ 18 \<noteq> 5"
  by (simp add: checkERC20Balance_def env_up_def token_Z_def decimals_or_18_def
      formatEther_def)

text \<open>
  Claim C5 as stated fails: when the catalog answers without a \<open>data\<close> field,
  \<open>fetchTokenList\<close> returns the empty sequence and records no error at all.
\<close>

theorem fetchTokenList_silent_on_missing_data:
  "axios_get env_nodata (log st_fresh) 1 = Inr (Some None)
   \<and> value_of (fetchTokenList env_nodata 1 st_fresh) = Some []
   \<and> errors (world_of (fetchTokenList env_nodata 1 st_fresh)) = []
   \<and> csv_files (world_of (fetchTokenList env_nodata 1 st_fresh)) errorCsvPath = None
   \<and> errorJson (world_of (fetchTokenList env_nodata 1 st_fresh)) = None"
  by (simp add: fetchTokenList_def env_nodata_def st_fresh_def)

text \<open>
  Claim C5, amended. \<open>fetchTokenList\<close> never throws. When the catalog request throws,
  it appends an error entry with operation \<open>fetchTokenList\<close>, chain the stringified
  chain id and wallet address \<open>N/A\<close>, and returns the empty sequence. When the request
  resolves but the body or its \<open>data\<close> field is missing, it returns the empty sequence
  and leaves the error list, the error JSON document and the CSV files as they are.
\<close>

theorem fetchTokenList_failure_policy:
  "\<not> is_Throws (fetchTokenList env chainId st)
   \<and> (axios_get env (log st) chainId = Inl message \<longrightarrow>
        value_of (fetchTokenList env chainId st) = Some []
        \<and> errors (world_of (fetchTokenList env chainId st))
            = errors st @ [\<lparr>e_chain = String_js chainId, e_token = ''N/A'',
                             e_tokenAddress = ''N/A'', e_walletAddress = ''N/A'',
                             e_operation = ''fetchTokenList'', e_error = message\<rparr>])
   \<and> (axios_get env (log st) chainId = Inr None
        \<or> axios_get env (log st) chainId = Inr (Some None) \<longrightarrow>
        value_of (fetchTokenList env chainId st) = Some []
        \<and> errors (world_of (fetchTokenList env chainId st)) = errors st
        \<and> errorJson (world_of (fetchTokenList env chainId st)) = errorJson st
        \<and> csv_files (world_of (fetchTokenList env chainId st)) = csv_files st)"
proof -
  have "\<not> is_Throws (fetchTokenList env chainId st)"
    using fetchTokenList_returns [of env chainId st] by auto
  moreover have "axios_get env (log st) chainId = Inl message \<longrightarrow>
        value_of (fetchTokenList env chainId st) = Some []
        \<and> errors (world_of (fetchTokenList env chainId st))
            = errors st @ [\<lparr>e_chain = String_js chainId, e_token = ''N/A'',
                             e_tokenAddress = ''N/A'', e_walletAddress = ''N/A'',
                             e_operation = ''fetchTokenList'', e_error = message\<rparr>]"
    by (simp add: fetchTokenList_def op_defs)
  moreover have "axios_get env (log st) chainId = Inr None
        \<or> axios_get env (log st) chainId = Inr (Some None) \<longrightarrow>
        value_of (fetchTokenList env chainId st) = Some []
        \<and> errors (world_of (fetchTokenList env chainId st)) = errors st
        \<and> errorJson (world_of (fetchTokenList env chainId st)) = errorJson st
        \<and> csv_files (world_of (fetchTokenList env chainId st)) = csv_files st"
    by (auto simp: fetchTokenList_def op_defs)
  ultimately show ?thesis by blast
qed

text \<open>Claim C5, amended, on a failing request for chain 43114 and on a body without data.\<close>

theorem fetchTokenList_failure_policy_witness:
  "axios_get env_down (log st_fresh) 43114 = Inl ''timeout''
   \<and> value_of (fetchTokenList env_down 43114 st_fresh) = Some []
   \<and> errors (world_of (fetchTokenList env_down 43114 st_fresh))
       = [\<lparr>e_chain = ''43114'', e_token = ''N/A'', e_tokenAddress = ''N/A'',
           e_walletAddress = ''N/A'', e_operation = ''fetchTokenList'',
           e_error = ''timeout''\<rparr>]
   \<and> axios_get env_nodata (log st_fresh) 1 = Inr (Some None)
   \<and> value_of (fetchTokenList env_nodata 1 st_fresh) = Some []
   \<and> errors (world_of (fetchTokenList env_nodata 1 st_fresh)) = errors st_fresh"
  using fetchTokenList_failure_policy [of env_down 43114 st_fresh "''timeout''"]
    fetchTokenList_failure_policy [of env_nodata 1 st_fresh]
  by (simp add: env_down_def env_nodata_def st_fresh_def String_js.simps)

text \<open>
  Claim C6. For every wallet, \<open>processWallet\<close> visits every chain of the registry in
  registry order, and on each chain probes the native balance first and then exactly
  the first \<open>min 20 n\<close> tokens of the chain's catalog of \<open>n\<close> tokens, in catalog order;
  for a catalog of 50 tokens exactly 20 are probed.
\<close>

theorem processWallet_probe_order:
  "\<not> is_Throws (processWallet env registry address tokenLists st)
   \<and> log (world_of (processWallet env registry address tokenLists st))
       = log st
         @ concat (map (\<lambda>chain. NativeProbe address chain
                          # map (ERC20Probe address chain)
                              (take 20 (tokens_for tokenLists chain))) registry)
   \<and> length (take 20 (tokens_for tokenLists chain))
       = min 20 (length (tokens_for tokenLists chain))
   \<and> (length (tokens_for tokenLists chain) = 50 \<longrightarrow>
        length (take 20 (tokens_for tokenLists chain)) = 20)"
proof -
  from processWallet_effect [of env registry address tokenLists st "[]"]
  obtain results st' where
    "processWallet env registry address tokenLists st
       = Returns (results, list_ex positive results) st'"
    and "log st' = log st @ wallet_probes registry tokenLists address"
    by blast
  then show ?thesis
    by (auto simp: wallet_probes_def chain_probes_def cong: map_cong)
qed

text \<open>Claim C6, on a catalog of 50 tokens: one native probe, then 20 token probes.\<close>

theorem processWallet_probe_order_witness:
  "length (tokens_for catalog50 Ethereum) = 50
   \<and> length (take 20 (tokens_for catalog50 Ethereum)) = 20
   \<and> log (world_of (processWallet env_up CHAINS ''0xA'' catalog50 st_fresh))
       = NativeProbe ''0xA'' Ethereum # replicate 20 (ERC20Probe ''0xA'' Ethereum token_T)"
  using processWallet_probe_order [of env_up CHAINS "''0xA''" catalog50 st_fresh Ethereum]
  by (simp add: tokens_for_def catalog50_def Ethereum_def CHAINS_def st_fresh_def)

text \<open>
  Claim C7. \<open>processWallet\<close> returns one balance record per probe; the all-balances
  file gains the row of every record, in order, whatever its balance, and the non-zero
  file gains the row of a record if and only if its balance is strictly greater than
  zero.
\<close>

theorem non_zero_filter:
  "\<exists>results st'.
     processWallet env registry address tokenLists st
       = Returns (results, list_ex positive results) st'
     \<and> length results = length (log st') - length (log st)
     \<and> rows_of (csv_files st' allBalancesPath)
         = rows_of (csv_files st allBalancesPath) @ map row_of results
     \<and> rows_of (csv_files st' nonZeroBalancesPath)
         = rows_of (csv_files st nonZeroBalancesPath) @ map row_of (filter positive results)"
proof -
  from processWallet_effect [of env registry address tokenLists st "[]"]
  obtain results st' where
    "processWallet env registry address tokenLists st
       = Returns (results, list_ex positive results) st'"
    and "log st' = log st @ wallet_probes registry tokenLists address"
    and "rows_of (csv_files st' allBalancesPath)
         = rows_of (csv_files st allBalancesPath) @ map row_of results"
    and "rows_of (csv_files st' nonZeroBalancesPath)
         = rows_of (csv_files st nonZeroBalancesPath) @ map row_of (filter positive results)"
    and "length results = length (wallet_probes registry tokenLists address)"
    by blast
  then show ?thesis by simp
qed


text \<open>
  Claim C8 as stated fails on a second run over the files of a first one. The first
  run absorbs two failures: the error CSV holds its header and two rows, the error
  JSON document two entries. The second run absorbs one failure: the CSV gains a third
  row, and the document is rewritten from the error list of the second run alone, so
  it has 1 entry where the CSV has 4 rows.
\<close>

theorem second_run_breaks_mirroring:
  "map_option length (errorJson (processWallets env_down CHAINS st_fresh)) = Some 2
   \<and> length (rows_of (csv_files (processWallets env_down CHAINS st_fresh) errorCsvPath)) = 3
   \<and> map_option length
        (errorJson (processWallets env_down CHAINS
           (new_process (processWallets env_down CHAINS st_fresh)))) = Some 1
   \<and> length (rows_of (csv_files (processWallets env_down CHAINS
                  (new_process (processWallets env_down CHAINS st_fresh))) errorCsvPath)) = 4"
proof -
  let ?st = "new_process (processWallets env_down CHAINS st_fresh)"
  have "wallet_list ?st = Some [row_A_other]" and "errors ?st = []"
    and "csv_files ?st errorCsvPath
           = Some [errorHeaders,
                [S ''1'', S ''N/A'', S ''N/A'', S ''N/A'', S ''fetchTokenList'', S ''timeout''],
                [S ''Ethereum'', S ''ETH'', S ''native'', S ''0xA'', S ''checkNativeBalance'',
                 S ''timeout'']]"
    by (simp_all add: new_process_def first_run_down)
  from second_run_down [OF this] show ?thesis
    by (simp add: first_run_down)
qed

text \<open>
  Claim C8, amended. A run that starts with an empty in-memory error list ends with
  the error log mirrored over the rows the error CSV held at the start (its header
  alone when the file was missing). Every absorbing operation keeps the log mirrored.
  In a mirrored state with at least one error, the error JSON document is the whole
  error list, its length is the CSV's row count minus the number of rows held at the
  start, and the last CSV row carries the fields of the last entry. Each absorbed
  failure appends one entry, rewrites the document to the whole list and appends the
  row of that entry to the CSV.
\<close>

theorem error_log_mirrored:
  "(errors st = [] \<longrightarrow>
      mirrored (if csv_files st errorCsvPath = None then [errorHeaders]
                else rows_of (csv_files st errorCsvPath))
        (processWallets env registry st))
   \<and> (mirrored base st \<longrightarrow>
        mirrored base (world_of (fetchTokenList env chainId st))
        \<and> mirrored base (world_of (checkNativeBalance env address chain st))
        \<and> mirrored base (world_of (checkERC20Balance env address chain token st)))
   \<and> (mirrored base st \<and> errors st \<noteq> [] \<longrightarrow>
        errorJson st = Some (errors st)
        \<and> length (errors st) = length (rows_of (csv_files st errorCsvPath)) - length base
        \<and> last (rows_of (csv_files st errorCsvPath)) = errorRow (last (errors st)))
   \<and> (axios_get env (log st) chainId = Inl message \<longrightarrow>
        (\<exists>e. errors (world_of (fetchTokenList env chainId st)) = errors st @ [e]
            \<and> errorJson (world_of (fetchTokenList env chainId st)) = Some (errors st @ [e])
            \<and> rows_of (csv_files (world_of (fetchTokenList env chainId st)) errorCsvPath)
                = rows_of (csv_files st errorCsvPath) @ [errorRow e]))
   \<and> (getBalance env (log st) chain address = Inl message \<longrightarrow>
        (\<exists>e. errors (world_of (checkNativeBalance env address chain st)) = errors st @ [e]
            \<and> errorJson (world_of (checkNativeBalance env address chain st))
                = Some (errors st @ [e])
            \<and> rows_of (csv_files (world_of (checkNativeBalance env address chain st))
                  errorCsvPath)
                = rows_of (csv_files st errorCsvPath) @ [errorRow e]))
   \<and> (readContract env (log st) chain (t_address token) address = Inl message \<longrightarrow>
        (\<exists>e. errors (world_of (checkERC20Balance env address chain token st)) = errors st @ [e]
            \<and> errorJson (world_of (checkERC20Balance env address chain token st))
                = Some (errors st @ [e])
            \<and> rows_of (csv_files (world_of (checkERC20Balance env address chain token st))
                  errorCsvPath)
                = rows_of (csv_files st errorCsvPath) @ [errorRow e]))"
proof -
  have run: "errors st = [] \<longrightarrow>
      mirrored (if csv_files st errorCsvPath = None then [errorHeaders]
                else rows_of (csv_files st errorCsvPath))
        (processWallets env registry st)"
  proof
    assume "errors st = []"
    then have "mirrored (if csv_files st errorCsvPath = None then [errorHeaders]
                else rows_of (csv_files st errorCsvPath)) (initializeOutputFiles st)"
      by (simp add: mirrored_def initializeOutputFiles_effect)
    then show "mirrored (if csv_files st errorCsvPath = None then [errorHeaders]
                else rows_of (csv_files st errorCsvPath)) (processWallets env registry st)"
      by (rule processWallets_mirrored)
  qed
  have ops: "mirrored base st \<longrightarrow>
        mirrored base (world_of (fetchTokenList env chainId st))
        \<and> mirrored base (world_of (checkNativeBalance env address chain st))
        \<and> mirrored base (world_of (checkERC20Balance env address chain token st))"
    by (simp add: fetchTokenList_mirrored checkNativeBalance_mirrored
        checkERC20Balance_mirrored)
  have meaning: "mirrored base st \<and> errors st \<noteq> [] \<longrightarrow>
        errorJson st = Some (errors st)
        \<and> length (errors st) = length (rows_of (csv_files st errorCsvPath)) - length base
        \<and> last (rows_of (csv_files st errorCsvPath)) = errorRow (last (errors st))"
    by (auto simp: mirrored_def last_map)
  have fetch: "axios_get env (log st) chainId = Inl message \<longrightarrow>
        (\<exists>e. errors (world_of (fetchTokenList env chainId st)) = errors st @ [e]
            \<and> errorJson (world_of (fetchTokenList env chainId st)) = Some (errors st @ [e])
            \<and> rows_of (csv_files (world_of (fetchTokenList env chainId st)) errorCsvPath)
                = rows_of (csv_files st errorCsvPath) @ [errorRow e])"
    by (simp add: fetchTokenList_def op_defs errorRow_def)
  have native: "getBalance env (log st) chain address = Inl message \<longrightarrow>
        (\<exists>e. errors (world_of (checkNativeBalance env address chain st)) = errors st @ [e]
            \<and> errorJson (world_of (checkNativeBalance env address chain st))
                = Some (errors st @ [e])
            \<and> rows_of (csv_files (world_of (checkNativeBalance env address chain st))
                  errorCsvPath)
                = rows_of (csv_files st errorCsvPath) @ [errorRow e])"
    by (simp add: checkNativeBalance_def op_defs errorRow_def)
  have erc20: "readContract env (log st) chain (t_address token) address = Inl message \<longrightarrow>
        (\<exists>e. errors (world_of (checkERC20Balance env address chain token st)) = errors st @ [e]
            \<and> errorJson (world_of (checkERC20Balance env address chain token st))
                = Some (errors st @ [e])
            \<and> rows_of (csv_files (world_of (checkERC20Balance env address chain token st))
                  errorCsvPath)
                = rows_of (csv_files st errorCsvPath) @ [errorRow e])"
    by (simp add: checkERC20Balance_def op_defs errorRow_def)
  from run ops meaning fetch native erc20 show ?thesis by blast
qed

text \<open>
  Claim C8, amended, on a run over a fresh directory where every request fails, and on
  a failing native probe in a state that already holds one mirrored error.
\<close>

theorem error_log_mirrored_witness:
  "errors st_fresh = []
   \<and> mirrored [errorHeaders] (processWallets env_down CHAINS st_fresh)
   \<and> mirrored [errorHeaders] st_logged
   \<and> errors st_logged \<noteq> []
   \<and> errorJson st_logged = Some (errors st_logged)
   \<and> length (errors st_logged) = length (rows_of (csv_files st_logged errorCsvPath)) - 1
   \<and> axios_get env_down (log st_logged) 1 = Inl ''timeout''
   \<and> getBalance env_down (log st_logged) Ethereum ''0xA'' = Inl ''timeout''
   \<and> readContract env_down (log st_logged) Ethereum (t_address token_T) ''0xA''
       = Inl ''timeout''
   \<and> mirrored [errorHeaders] (world_of (fetchTokenList env_down 1 st_logged))
   \<and> mirrored [errorHeaders] (world_of (checkNativeBalance env_down ''0xA'' Ethereum st_logged))
   \<and> mirrored [errorHeaders]
       (world_of (checkERC20Balance env_down ''0xA'' Ethereum token_T st_logged))
   \<and> length (errors (world_of (checkNativeBalance env_down ''0xA'' Ethereum st_logged))) = 2"
proof -
  have m: "mirrored [errorHeaders] st_logged"
    by (simp add: mirrored_def st_logged_def)
  have e: "errors st_logged \<noteq> []"
    by (simp add: st_logged_def)
  have f: "axios_get env_down (log st_logged) 1 = Inl ''timeout''"
    "getBalance env_down (log st_logged) Ethereum ''0xA'' = Inl ''timeout''"
    "readContract env_down (log st_logged) Ethereum (t_address token_T) ''0xA''
       = Inl ''timeout''"
    by (simp_all add: env_down_def)
  have l: "length (errors st_logged) = 1"
    by (simp add: st_logged_def)
  show ?thesis
    using m e f l
      error_log_mirrored [where st = st_fresh and env = env_down and registry = CHAINS]
      error_log_mirrored [where st = st_logged and env = env_down
        and base = "[errorHeaders]" and chainId = 1 and address = "''0xA''"
        and chain = Ethereum and token = token_T and message = "''timeout''"]
    by (auto simp: st_fresh_def)
qed

text \<open>
  Claim C9 as stated fails. A first run on a working network empties the source list
  of its eligible rows and logs no error. A second run finds no wallet, still fetches
  the token catalog of every chain, and when that request fails appends a row to the
  error CSV.
\<close>

theorem rerun_logs_catalog_failure:
  "wallet_list (new_process (processWallets env_up CHAINS st_fresh)) = Some [row_A_other]
   \<and> wallets [row_A_other] = []
   \<and> rows_of (csv_files (new_process (processWallets env_up CHAINS st_fresh)) errorCsvPath)
       = [errorHeaders]
   \<and> rows_of (csv_files (processWallets env_down CHAINS
             (new_process (processWallets env_up CHAINS st_fresh))) errorCsvPath)
       = [errorHeaders,
          [S ''1'', S ''N/A'', S ''N/A'', S ''N/A'', S ''fetchTokenList'', S ''timeout'']]"
proof -
  let ?st = "new_process (processWallets env_up CHAINS st_fresh)"
  have st: "wallet_list ?st = Some [row_A_other]" "errors ?st = []"
    "csv_files ?st errorCsvPath = Some [errorHeaders]"
    by (simp_all add: new_process_def first_run_up)
  have "wallets [row_A_other] = []"
    by (simp add: wallets_def row_A_other_def)
  with st second_run_down(2) [OF st] show ?thesis
    by simp
qed

text \<open>
  Claim C9, amended. When \<open>processWallets\<close> runs on a source list whose derived wallet
  set is empty, it makes the catalog request of every chain and no native-balance or
  ERC20 probe, leaves the source list as it is, and adds no row to the all-balances
  and non-zero files beyond the header of a file that was missing. The errors it
  records are exactly those of the failing catalog requests: one \<open>fetchTokenList\<close>
  entry per failing request, in registry order, with the stringified chain id and the
  message of that request, each with its row in the error CSV and nothing else. So
  there are at most as many as chains, none when every catalog request succeeds, and
  one for every chain when every catalog request fails.
\<close>

theorem rerun_on_emptied_list:
  assumes "wallet_list st = Some records" and "wallets records = []"
  shows "log (processWallets env registry st)
           = log st @ map (\<lambda>c. TokenListRequest (c_id c)) registry
         \<and> wallet_list (processWallets env registry st) = Some records
         \<and> rows_of (csv_files (processWallets env registry st) allBalancesPath)
             = (if csv_files st allBalancesPath = None then [headers]
                else rows_of (csv_files st allBalancesPath))
         \<and> rows_of (csv_files (processWallets env registry st) nonZeroBalancesPath)
             = (if csv_files st nonZeroBalancesPath = None then [headers]
                else rows_of (csv_files st nonZeroBalancesPath))
         \<and> errors (processWallets env registry st)
             = errors st @ map fetch_entry (failed_requests env (log st) registry)
         \<and> rows_of (csv_files (processWallets env registry st) errorCsvPath)
             = (if csv_files st errorCsvPath = None then [errorHeaders]
                else rows_of (csv_files st errorCsvPath))
               @ map errorRow (map fetch_entry (failed_requests env (log st) registry))
         \<and> list_all fetch_error (map fetch_entry (failed_requests env (log st) registry))
         \<and> length (failed_requests env (log st) registry) \<le> length registry
         \<and> ((\<forall>h j. \<not> isl (axios_get env h j)) \<longrightarrow>
               failed_requests env (log st) registry = [])
         \<and> ((\<forall>h j. isl (axios_get env h j)) \<longrightarrow>
               map fst (failed_requests env (log st) registry) = map c_id registry)"
proof -
  let ?st1 = "initializeOutputFiles st"
  let ?fs = "failed_requests env (log st) registry"
  from processWallets_Some [OF assms(1), of env registry] obtain tls st2 st' where
    f: "fetchLoop env registry Map.empty ?st1 = Returns tls st2"
    and w: "walletLoop env registry tls (wallets records) records st2
              = Returns (remaining (wallets records) records) st'"
    and p: "processWallets env registry st = st'"
    by blast
  from w assms(2) have "st' = st2" by simp
  with p have p2: "processWallets env registry st = st2" by simp
  from f have w2: "world_of (fetchLoop env registry Map.empty ?st1) = st2" by simp
  from fetchLoop_effect [of env registry Map.empty ?st1 "[]"] f have
    lg: "log st2 = log ?st1 @ map (\<lambda>c. TokenListRequest (c_id c)) registry"
    and wl: "wallet_list st2 = wallet_list ?st1"
    and al: "csv_files st2 allBalancesPath = csv_files ?st1 allBalancesPath"
    and nz: "csv_files st2 nonZeroBalancesPath = csv_files ?st1 nonZeroBalancesPath"
    by auto
  from fetchLoop_logged [of env registry Map.empty ?st1] have
    er: "errors st2 = errors ?st1 @ map fetch_entry (failed_requests env (log ?st1) registry)"
    and ro: "rows_of (csv_files st2 errorCsvPath)
         = rows_of (csv_files ?st1 errorCsvPath)
           @ map errorRow (map fetch_entry (failed_requests env (log ?st1) registry))"
    unfolding w2 by simp_all
  have "log (processWallets env registry st)
          = log st @ map (\<lambda>c. TokenListRequest (c_id c)) registry"
    using lg p2 by (simp add: initializeOutputFiles_effect)
  moreover have "wallet_list (processWallets env registry st) = Some records"
    using wl p2 assms(1) by (simp add: initializeOutputFiles_effect)
  moreover have "rows_of (csv_files (processWallets env registry st) allBalancesPath)
             = (if csv_files st allBalancesPath = None then [headers]
                else rows_of (csv_files st allBalancesPath))"
    using al p2 by (simp add: initializeOutputFiles_effect)
  moreover have "rows_of (csv_files (processWallets env registry st) nonZeroBalancesPath)
             = (if csv_files st nonZeroBalancesPath = None then [headers]
                else rows_of (csv_files st nonZeroBalancesPath))"
    using nz p2 by (simp add: initializeOutputFiles_effect)
  moreover have "errors (processWallets env registry st) = errors st @ map fetch_entry ?fs"
    using er p2 by (simp add: initializeOutputFiles_effect)
  moreover have "rows_of (csv_files (processWallets env registry st) errorCsvPath)
             = (if csv_files st errorCsvPath = None then [errorHeaders]
                else rows_of (csv_files st errorCsvPath))
               @ map errorRow (map fetch_entry ?fs)"
    using ro p2 by (simp add: initializeOutputFiles_effect)
  moreover have "list_all fetch_error (map fetch_entry ?fs)"
    by (rule fetch_error_entries)
  moreover have "length ?fs \<le> length registry"
    by (rule failed_requests_length)
  moreover have "(\<forall>h j. \<not> isl (axios_get env h j)) \<longrightarrow> ?fs = []"
    by (simp add: failed_requests_none)
  moreover have "(\<forall>h j. isl (axios_get env h j)) \<longrightarrow> map fst ?fs = map c_id registry"
    by (simp add: failed_requests_all)
  ultimately show ?thesis by blast
qed

text \<open>
  Claim C9, amended, on an emptied source list: with a network that answers, with a
  network where every request fails, and over two chains of which the catalog refuses
  the second.
\<close>

theorem rerun_on_emptied_list_witness:
  "wallet_list st_emptied = Some [row_A_other]
   \<and> wallets [row_A_other] = []
   \<and> log (processWallets env_up CHAINS st_emptied) = [TokenListRequest 1]
   \<and> wallet_list (processWallets env_up CHAINS st_emptied) = Some [row_A_other]
   \<and> rows_of (csv_files (processWallets env_up CHAINS st_emptied) allBalancesPath) = [headers]
   \<and> rows_of (csv_files (processWallets env_up CHAINS st_emptied) nonZeroBalancesPath)
       = [headers]
   \<and> errors (processWallets env_up CHAINS st_emptied) = []
   \<and> rows_of (csv_files (processWallets env_up CHAINS st_emptied) errorCsvPath)
       = [errorHeaders]
   \<and> log (processWallets env_down CHAINS st_emptied) = [TokenListRequest 1]
   \<and> rows_of (csv_files (processWallets env_down CHAINS st_emptied) allBalancesPath)
       = [headers]
   \<and> errors (processWallets env_down CHAINS st_emptied)
       = [\<lparr>e_chain = ''1'', e_token = ''N/A'', e_tokenAddress = ''N/A'',
           e_walletAddress = ''N/A'', e_operation = ''fetchTokenList'',
           e_error = ''timeout''\<rparr>]
   \<and> rows_of (csv_files (processWallets env_down CHAINS st_emptied) errorCsvPath)
       = [errorHeaders,
          [S ''1'', S ''N/A'', S ''N/A'', S ''N/A'', S ''fetchTokenList'', S ''timeout'']]
   \<and> log (processWallets env_flaky [Ethereum, BNB] st_emptied)
       = [TokenListRequest 1, TokenListRequest 56]
   \<and> errors (processWallets env_flaky [Ethereum, BNB] st_emptied)
       = [\<lparr>e_chain = ''56'', e_token = ''N/A'', e_tokenAddress = ''N/A'',
           e_walletAddress = ''N/A'', e_operation = ''fetchTokenList'',
           e_error = ''denied''\<rparr>]
   \<and> rows_of (csv_files (processWallets env_flaky [Ethereum, BNB] st_emptied) errorCsvPath)
       = [errorHeaders,
          [S ''56'', S ''N/A'', S ''N/A'', S ''N/A'', S ''fetchTokenList'', S ''denied'']]"
proof -
  have w: "wallet_list st_emptied = Some [row_A_other]" "wallets [row_A_other] = []"
    by (simp_all add: st_emptied_def wallets_def row_A_other_def)
  have up: "\<forall>h j. \<not> isl (axios_get env_up h j)"
    by (simp add: env_up_def)
  have down: "failed_requests env_down (log st_emptied) CHAINS = [(1, ''timeout'')]"
    by (simp add: env_down_def CHAINS_def)
  have flaky: "failed_requests env_flaky (log st_emptied) [Ethereum, BNB] = [(56, ''denied'')]"
    by (simp add: env_flaky_def Ethereum_def BNB_def)
  show ?thesis
    using w up down flaky
      rerun_on_emptied_list [OF w, of env_up CHAINS]
      rerun_on_emptied_list [OF w, of env_down CHAINS]
      rerun_on_emptied_list [OF w, of env_flaky "[Ethereum, BNB]"]
    by (simp add: st_emptied_def CHAINS_def Ethereum_def BNB_def fetch_entry_def errorRow_def
        String_js.simps)
qed

text \<open>
  Claim C10. For every record list and every address \<open>W\<close>, \<open>updateWalletListCsv\<close> keeps,
  in their original order, all records that do not match address \<open>W\<close>, format
  \<open>blockchain\<close> and wallet provider \<open>embeddedWallet\<close> at once: what it returns is a
  subsequence of the records, the records that do not match are the same list before
  and after, and so are the rows of other wallets and the rows with another provider
  or another format; the rewritten file holds what is returned.
\<close>

theorem updateWalletListCsv_frame:
  "subseq (fst (updateWalletListCsv records W st)) records
   \<and> filter (\<lambda>r. \<not> matches W r) (fst (updateWalletListCsv records W st))
       = filter (\<lambda>r. \<not> matches W r) records
   \<and> filter (\<lambda>r. verified_credential_address r \<noteq> Some W)
        (fst (updateWalletListCsv records W st))
       = filter (\<lambda>r. verified_credential_address r \<noteq> Some W) records
   \<and> filter (\<lambda>r. verified_credential_walletProvider r \<noteq> Some ''embeddedWallet'')
        (fst (updateWalletListCsv records W st))
       = filter (\<lambda>r. verified_credential_walletProvider r \<noteq> Some ''embeddedWallet'') records
   \<and> filter (\<lambda>r. verified_credential_format r \<noteq> Some ''blockchain'')
        (fst (updateWalletListCsv records W st))
       = filter (\<lambda>r. verified_credential_format r \<noteq> Some ''blockchain'') records
   \<and> wallet_list (snd (updateWalletListCsv records W st))
       = Some (fst (updateWalletListCsv records W st))"
  by (auto simp: updateWalletListCsv_def Let_def matches_def intro: filter_cong)

end
